theory Spec2Isabelle
  imports Complex_Main "HOL-Library.Word" "HOL-Library.AList"
begin

unbundle bit_operations_syntax

section \<open>The InfiniBand device layer of UCX (src/uct/ib/base/ib_device.c)\<close>

text \<open>
  A shallow embedding of the device descriptor of \<^verbatim>\<open>ib_device.c\<close>: the
  asynchronous-event registry, the address-handle cache, the PCI bandwidth estimate,
  the RoCE GID selection, the port check and the device cleanup.

  Conventions of the embedding.
  \<^item> The two khash tables of the device are association lists; \<^verbatim>\<open>kh_get\<close> is the
    lookup with the equality function of the table, \<^verbatim>\<open>kh_put\<close> of an absent key
    appends, \<^verbatim>\<open>kh_del\<close> deletes, and the iteration order of \<^verbatim>\<open>kh_foreach\<close> is
    the order of the list.
  \<^item> Every function runs with the device lock it takes held from entry to exit, so a
    call is one atomic step on the state; the locks themselves are not modelled.
  \<^item> \<^verbatim>\<open>ucs_assert\<close> is a branch of the model: a violated assertion ends the call
    with \<open>Inl AssertFailed\<close>, the abort of a build with assertions enabled.
  \<^item> What the verbs library, sysfs and the memory allocator answer is an argument of
    the function that asks.
\<close>

subsection \<open>Status codes and failures\<close>

datatype ucs_status =
    UCS_OK
  | UCS_ERR_NO_MEMORY
  | UCS_ERR_BUSY
  | UCS_ERR_NO_ELEM
  | UCS_ERR_NO_DEVICE
  | UCS_ERR_UNSUPPORTED
  | UCS_ERR_UNREACHABLE
  | UCS_ERR_INVALID_PARAM
  | UCS_ERR_INVALID_ADDR
  | UCS_ERR_ENDPOINT_TIMEOUT
  | UCS_ERR_IO_ERROR

datatype failure = AssertFailed

subsection \<open>Device flags\<close>

text \<open>
  The flags are declared in \<^verbatim>\<open>ib_device.h\<close>, which is not among the source files,
  so their bit positions are not used: a flag word is a set of flags, \<^verbatim>\<open>a | b\<close> is the
  union, \<^verbatim>\<open>a & b\<close> the intersection, and \<^verbatim>\<open>ucs_test_all_flags(a, b)\<close> is
  \<open>b \<subseteq> a\<close>. \<^verbatim>\<open>UCT_IB_DEVICE_FLAG_DC\<close> is the mask of both DC versions.
\<close>

datatype uct_ib_device_flag =
    UCT_IB_DEVICE_FLAG_MLX4_PRM
  | UCT_IB_DEVICE_FLAG_MLX5_PRM
  | UCT_IB_DEVICE_FLAG_MELLANOX
  | UCT_IB_DEVICE_FLAG_LINK_IB
  | UCT_IB_DEVICE_FLAG_DC_V1
  | UCT_IB_DEVICE_FLAG_DC_V2
  | UCT_IB_DEVICE_FAILED

definition UCT_IB_DEVICE_FLAG_DC :: "uct_ib_device_flag set" where
  "UCT_IB_DEVICE_FLAG_DC = {UCT_IB_DEVICE_FLAG_DC_V1, UCT_IB_DEVICE_FLAG_DC_V2}"

definition ucs_test_all_flags :: "uct_ib_device_flag set \<Rightarrow> uct_ib_device_flag set \<Rightarrow> bool" where
  "ucs_test_all_flags a b = (b \<subseteq> a)"

subsection \<open>The asynchronous-event registry\<close>

datatype ibv_event_type =
    IBV_EVENT_CQ_ERR
  | IBV_EVENT_QP_FATAL
  | IBV_EVENT_QP_REQ_ERR
  | IBV_EVENT_QP_ACCESS_ERR
  | IBV_EVENT_COMM_EST
  | IBV_EVENT_SQ_DRAINED
  | IBV_EVENT_PATH_MIG
  | IBV_EVENT_PATH_MIG_ERR
  | IBV_EVENT_DEVICE_FATAL
  | IBV_EVENT_PORT_ACTIVE
  | IBV_EVENT_PORT_ERR
  | IBV_EVENT_LID_CHANGE
  | IBV_EVENT_PKEY_CHANGE
  | IBV_EVENT_SM_CHANGE
  | IBV_EVENT_SRQ_ERR
  | IBV_EVENT_SRQ_LIMIT_REACHED
  | IBV_EVENT_QP_LAST_WQE_REACHED
  | IBV_EVENT_CLIENT_REREGISTER
  | IBV_EVENT_GID_CHANGE

text \<open>
  The key of the registry: \<^verbatim>\<open>uct_ib_async_event_hash_equal\<close> compares the event
  type and the resource id, so the key is that pair.
\<close>

type_synonym uct_ib_async_event = "ibv_event_type \<times> 32 word"

text \<open>
  A wait context is caller-owned memory; the registry holds a pointer to it. Pointers
  are natural numbers and the contexts live in a store, so two entries may hold the
  same context. \<open>wait_ctx = None\<close> is the NULL pointer.
\<close>

record uct_ib_async_event_val =
  wait_ctx :: "nat option"
  fired :: bool

record uct_ib_async_event_wait =
  cbq :: nat
  cb_id :: int

text \<open>
  Modelled from the spec: the callback queue (\<^verbatim>\<open>ucs_callbackq_add_safe\<close>,
  \<^verbatim>\<open>ucs_callbackq_remove_safe\<close>, \<^verbatim>\<open>UCS_CALLBACKQ_ID_NULL\<close>) is not part of the
  two source files. A queue is the list of its scheduled callbacks, each an id and the
  wait context passed as the argument; adding returns an id that no scheduled callback
  of the queue has, and removing drops the callback with the given id.
\<close>

type_synonym ucs_callbackq = "(int \<times> nat) list"

definition UCS_CALLBACKQ_ID_NULL :: int where
  "UCS_CALLBACKQ_ID_NULL = - 1"

fun callbackq_fresh_id :: "ucs_callbackq \<Rightarrow> int" where
  "callbackq_fresh_id [] = 0"
| "callbackq_fresh_id (e # q) = max (fst e + 1) (callbackq_fresh_id q)"

definition ucs_callbackq_add_safe :: "ucs_callbackq \<Rightarrow> nat \<Rightarrow> int \<times> ucs_callbackq" where
  "ucs_callbackq_add_safe q arg = (let i = callbackq_fresh_id q in (i, q @ [(i, arg)]))"

definition ucs_callbackq_remove_safe :: "ucs_callbackq \<Rightarrow> int \<Rightarrow> ucs_callbackq" where
  "ucs_callbackq_remove_safe q i = filter (\<lambda>e. fst e \<noteq> i) q"

subsection \<open>The state of the device\<close>

text \<open>
  The address-attribute record of the verbs library, the key of the address-handle
  cache. A GID is its 16 raw bytes. An address handle (\<^verbatim>\<open>struct ibv_ah *\<close>) is a
  natural number.
\<close>

type_synonym ibv_gid = "8 word list"

record ibv_global_route =
  dgid :: ibv_gid
  flow_label :: "32 word"
  sgid_index :: "8 word"
  hop_limit :: "8 word"
  traffic_class :: "8 word"

record ibv_ah_attr =
  grh :: ibv_global_route
  dlid :: "16 word"
  sl :: "8 word"
  src_path_bits :: "8 word"
  static_rate :: "8 word"
  is_global :: "8 word"
  port_num :: "8 word"

datatype device_resource =
    ASYNC_EVENTS_HASH
  | ASYNC_EVENT_LOCK
  | AH_HASH
  | AH_LOCK
  | STATS_NODE

text \<open>
  The state: the fields of \<^verbatim>\<open>uct_ib_device_t\<close> that the stateful functions use
  (\<open>flags\<close>, \<open>async_events_hash\<close>, \<open>ah_hash\<close>, \<open>async_events\<close>, \<open>async_fd\<close>)
  and what they reach from there: the wait contexts of the callers and the callback
  queues these point to, the address handles that exist in the hardware
  (\<open>ah_live\<close>) with the number of \<^verbatim>\<open>ibv_create_ah\<close> calls made so far
  (\<open>ah_creates\<close>), the file descriptors that have a handler in the event loop, the
  resources of the device that are initialised and not yet destroyed, and the
  warnings logged.
\<close>

record ib_state =
  flags :: "uct_ib_device_flag set"
  async_events_hash :: "(uct_ib_async_event \<times> uct_ib_async_event_val) list"
  ah_hash :: "(ibv_ah_attr \<times> nat) list"
  async_events :: bool
  async_fd :: int
  wait_ctxs :: "nat \<Rightarrow> uct_ib_async_event_wait"
  cbqs :: "nat \<Rightarrow> ucs_callbackq"
  ah_live :: "nat list"
  ah_creates :: nat
  async_handlers :: "int list"
  resources :: "device_resource list"
  warnings :: "string list"

subsection \<open>Registering, waiting, dispatching\<close>

definition uct_ib_device_async_event_schedule_callback ::
  "ib_state \<Rightarrow> nat \<Rightarrow> failure + ib_state" where
  "uct_ib_device_async_event_schedule_callback s c =
     (let w = wait_ctxs s c in
      if cb_id w \<noteq> UCS_CALLBACKQ_ID_NULL then Inl AssertFailed
      else let (i, q) = ucs_callbackq_add_safe (cbqs s (cbq w)) c in
           Inr (s\<lparr>cbqs := (cbqs s)(cbq w := q),
                  wait_ctxs := (wait_ctxs s)(c := w\<lparr>cb_id := i\<rparr>)\<rparr>))"

definition uct_ib_device_async_event_dispatch_nolock ::
  "ib_state \<Rightarrow> uct_ib_async_event \<Rightarrow> failure + ib_state" where
  "uct_ib_device_async_event_dispatch_nolock s event =
     (case map_of (async_events_hash s) event of
        None \<Rightarrow> Inr s
      | Some entry \<Rightarrow>
          (let s1 = s\<lparr>async_events_hash :=
                        AList.update event (entry\<lparr>fired := True\<rparr>) (async_events_hash s)\<rparr>
           in case wait_ctx entry of
                None \<Rightarrow> Inr s1
              | Some c \<Rightarrow> uct_ib_device_async_event_schedule_callback s1 c))"

definition uct_ib_device_async_event_dispatch ::
  "ib_state \<Rightarrow> uct_ib_async_event \<Rightarrow> failure + ib_state" where
  "uct_ib_device_async_event_dispatch s event =
     uct_ib_device_async_event_dispatch_nolock s event"

text \<open>The body of \<^verbatim>\<open>kh_foreach_key\<close>: one dispatch per key, in table order.\<close>

fun dispatch_each :: "ib_state \<Rightarrow> uct_ib_async_event list \<Rightarrow> failure + ib_state" where
  "dispatch_each s [] = Inr s"
| "dispatch_each s (event # events) =
     (case uct_ib_device_async_event_dispatch_nolock s event of
        Inl f \<Rightarrow> Inl f
      | Inr s1 \<Rightarrow> dispatch_each s1 events)"

definition uct_ib_device_async_event_dispatch_fatal :: "ib_state \<Rightarrow> failure + ib_state" where
  "uct_ib_device_async_event_dispatch_fatal s =
     dispatch_each (s\<lparr>flags := flags s \<union> {UCT_IB_DEVICE_FAILED}\<rparr>)
                   (map fst (async_events_hash s))"

text \<open>
  \<^verbatim>\<open>kh_put\<close> fails when the table cannot grow; \<open>put_ok\<close> is the allocator's answer.
  A key that is present makes \<^verbatim>\<open>kh_put\<close> return \<^verbatim>\<open>UCS_KH_PUT_KEY_PRESENT\<close>,
  which the function asserts against.
\<close>

definition uct_ib_device_async_event_register ::
  "ib_state \<Rightarrow> bool \<Rightarrow> ibv_event_type \<Rightarrow> 32 word \<Rightarrow> failure + (ucs_status \<times> ib_state)" where
  "uct_ib_device_async_event_register s put_ok etype rid =
     (let event = (etype, rid) in
      case map_of (async_events_hash s) event of
        Some entry \<Rightarrow> Inl AssertFailed
      | None \<Rightarrow>
          if \<not> put_ok then Inr (UCS_ERR_NO_MEMORY, s)
          else Inr (UCS_OK,
                    s\<lparr>async_events_hash :=
                        async_events_hash s @ [(event, \<lparr>wait_ctx = None, fired = False\<rparr>)]\<rparr>))"

definition uct_ib_device_async_event_inprogress ::
  "ib_state \<Rightarrow> uct_ib_async_event_val \<Rightarrow> bool" where
  "uct_ib_device_async_event_inprogress s entry =
     (case wait_ctx entry of
        None \<Rightarrow> False
      | Some c \<Rightarrow> cb_id (wait_ctxs s c) \<noteq> UCS_CALLBACKQ_ID_NULL)"

definition uct_ib_device_async_event_wait ::
  "ib_state \<Rightarrow> ibv_event_type \<Rightarrow> 32 word \<Rightarrow> nat \<Rightarrow> failure + (ucs_status \<times> ib_state)" where
  "uct_ib_device_async_event_wait s etype rid c =
     (let event = (etype, rid) in
      case map_of (async_events_hash s) event of
        None \<Rightarrow> Inl AssertFailed
      | Some entry \<Rightarrow>
          if uct_ib_device_async_event_inprogress s entry then Inr (UCS_ERR_BUSY, s)
          else
            (let s1 = s\<lparr>wait_ctxs :=
                          (wait_ctxs s)(c := (wait_ctxs s c)\<lparr>cb_id := UCS_CALLBACKQ_ID_NULL\<rparr>)\<rparr>;
                 s2 = s1\<lparr>async_events_hash :=
                           AList.update event (entry\<lparr>wait_ctx := Some c\<rparr>) (async_events_hash s1)\<rparr>
             in if fired entry
                then (case uct_ib_device_async_event_schedule_callback s2 c of
                        Inl f \<Rightarrow> Inl f
                      | Inr s3 \<Rightarrow> Inr (UCS_OK, s3))
                else Inr (UCS_OK, s2)))"

definition uct_ib_device_async_event_unregister ::
  "ib_state \<Rightarrow> ibv_event_type \<Rightarrow> 32 word \<Rightarrow> failure + ib_state" where
  "uct_ib_device_async_event_unregister s etype rid =
     (let event = (etype, rid) in
      case map_of (async_events_hash s) event of
        None \<Rightarrow> Inl AssertFailed
      | Some entry \<Rightarrow>
          (let s1 = (if uct_ib_device_async_event_inprogress s entry
                     then (let w = wait_ctxs s (the (wait_ctx entry)) in
                           s\<lparr>cbqs := (cbqs s)(cbq w :=
                                        ucs_callbackq_remove_safe (cbqs s (cbq w)) (cb_id w))\<rparr>)
                     else s)
           in Inr (s1\<lparr>async_events_hash := AList.delete event (async_events_hash s1)\<rparr>)))"


subsection \<open>The address-handle cache\<close>

text \<open>
  \<^verbatim>\<open>uct_ib_kh_ah_hash_equal\<close> is \<^verbatim>\<open>memcmp\<close> over the whole attribute record:
  two records are equal when every field is, the global-route fields included.
  (The padding bytes of the C struct are not part of the record.)
\<close>

definition uct_ib_kh_ah_hash_equal :: "ibv_ah_attr \<Rightarrow> ibv_ah_attr \<Rightarrow> bool" where
  "uct_ib_kh_ah_hash_equal a b = (a = b)"

fun kh_get_ah :: "(ibv_ah_attr \<times> nat) list \<Rightarrow> ibv_ah_attr \<Rightarrow> nat option" where
  "kh_get_ah [] k = None"
| "kh_get_ah (e # h) k =
     (if uct_ib_kh_ah_hash_equal (fst e) k then Some (snd e) else kh_get_ah h k)"

text \<open>The value of \<^verbatim>\<open>ETIMEDOUT\<close> on Linux; no theorem depends on the number.\<close>

definition ETIMEDOUT :: int where
  "ETIMEDOUT = 110"

text \<open>
  \<^verbatim>\<open>ibv_create_ah\<close> answers with a handle (\<open>Inr ah\<close>) or with NULL and an
  \<^verbatim>\<open>errno\<close> (\<open>Inl errno\<close>). The result is the status and the value written to
  \<^verbatim>\<open>*ah_p\<close>, \<open>None\<close> when nothing is written.
\<close>

definition uct_ib_device_create_ah ::
  "ib_state \<Rightarrow> int + nat \<Rightarrow> ucs_status \<times> nat option \<times> ib_state" where
  "uct_ib_device_create_ah s created =
     (let s1 = s\<lparr>ah_creates := ah_creates s + 1\<rparr> in
      case created of
        Inl errno \<Rightarrow>
          (if errno = ETIMEDOUT then UCS_ERR_ENDPOINT_TIMEOUT else UCS_ERR_INVALID_ADDR,
           None, s1)
      | Inr ah \<Rightarrow> (UCS_OK, Some ah, s1\<lparr>ah_live := ah # ah_live s1\<rparr>))"

definition ibv_destroy_ah :: "ib_state \<Rightarrow> nat \<Rightarrow> ib_state" where
  "ibv_destroy_ah s ah = s\<lparr>ah_live := remove1 ah (ah_live s)\<rparr>"

text \<open>
  \<open>created\<close> is what \<^verbatim>\<open>ibv_create_ah\<close> answers if it is called, and \<open>put_ok\<close>
  whether \<^verbatim>\<open>kh_put\<close> can store the new key if it is called.
\<close>

definition uct_ib_device_create_ah_cached ::
  "ib_state \<Rightarrow> ibv_ah_attr \<Rightarrow> int + nat \<Rightarrow> bool \<Rightarrow> ucs_status \<times> nat option \<times> ib_state" where
  "uct_ib_device_create_ah_cached s ah_attr created put_ok =
     (case kh_get_ah (ah_hash s) ah_attr of
        Some ah \<Rightarrow> (UCS_OK, Some ah, s)
      | None \<Rightarrow>
          (case uct_ib_device_create_ah s created of
             (status, ah_p, s1) \<Rightarrow>
               if status \<noteq> UCS_OK then (status, ah_p, s1)
               else (case ah_p of
                       None \<Rightarrow> (status, ah_p, s1)
                     | Some ah \<Rightarrow>
                         if \<not> put_ok
                         then (UCS_ERR_NO_MEMORY, ah_p, ibv_destroy_ah s1 ah)
                         else (UCS_OK, ah_p,
                               s1\<lparr>ah_hash := ah_hash s1 @ [(ah_attr, ah)]\<rparr>))))"

subsection \<open>The PCI bandwidth estimate\<close>

















subsection \<open>GID table entries\<close>

datatype uct_ib_roce_version =
    UCT_IB_DEVICE_ROCE_V1
  | UCT_IB_DEVICE_ROCE_V1_5
  | UCT_IB_DEVICE_ROCE_V2

datatype sa_family = AF_INET | AF_INET6

record uct_ib_roce_version_info =
  ver :: uct_ib_roce_version
  addr_family :: sa_family

text \<open>The index of \<^verbatim>\<open>uct_ib_device_gid_info_t\<close> is a \<^verbatim>\<open>uint8_t\<close>.\<close>

record uct_ib_device_gid_info =
  gid :: ibv_gid
  gid_index :: "8 word"
  roce_info :: uct_ib_roce_version_info

datatype ibv_port_state =
    IBV_PORT_NOP
  | IBV_PORT_DOWN
  | IBV_PORT_INIT
  | IBV_PORT_ARMED
  | IBV_PORT_ACTIVE
  | IBV_PORT_ACTIVE_DEFER

datatype ibv_link_layer =
    IBV_LINK_LAYER_UNSPECIFIED
  | IBV_LINK_LAYER_INFINIBAND
  | IBV_LINK_LAYER_ETHERNET

record ibv_port_attr =
  state :: ibv_port_state
  gid_tbl_len :: int
  link_layer :: ibv_link_layer

text \<open>
  What the hardware and sysfs answer during one call: \<^verbatim>\<open>ibv_query_gid\<close> for a port
  and an index (\<open>None\<close> when it returns non-zero), the content of the
  \<^verbatim>\<open>gid_attrs/types\<close> file of a port and an index (\<open>None\<close> when it cannot be
  read), and whether \<^verbatim>\<open>ibv_create_ah\<close> returns a handle for an attribute record.
\<close>

record ib_verbs =
  ibv_query_gid :: "8 word \<Rightarrow> nat \<Rightarrow> ibv_gid option"
  gid_type_file :: "8 word \<Rightarrow> nat \<Rightarrow> string option"
  ibv_create_ah_ok :: "ibv_ah_attr \<Rightarrow> bool"

text \<open>
  The views of the GID union. A byte beyond the end of a short list reads as 0; the
  host is little-endian, so \<^verbatim>\<open>s6_addr32[i]\<close> and the two 64-bit halves are
  little-endian loads and \<^verbatim>\<open>htonl\<close> swaps the four bytes.
\<close>

definition gid_byte :: "ibv_gid \<Rightarrow> nat \<Rightarrow> 8 word" where
  "gid_byte raw i = (if i < length raw then raw ! i else 0)"

definition s6_addr32 :: "ibv_gid \<Rightarrow> nat \<Rightarrow> 32 word" where
  "s6_addr32 raw i =
     ucast (gid_byte raw (4 * i)) OR
     push_bit 8 (ucast (gid_byte raw (4 * i + 1))) OR
     push_bit 16 (ucast (gid_byte raw (4 * i + 2))) OR
     push_bit 24 (ucast (gid_byte raw (4 * i + 3)))"

definition gid_u64 :: "ibv_gid \<Rightarrow> nat \<Rightarrow> 64 word" where
  "gid_u64 raw i =
     ucast (s6_addr32 raw (2 * i)) OR push_bit 32 (ucast (s6_addr32 raw (2 * i + 1)))"

definition subnet_prefix :: "ibv_gid \<Rightarrow> 64 word" where
  "subnet_prefix raw = gid_u64 raw 0"

definition htonl :: "32 word \<Rightarrow> 32 word" where
  "htonl x =
     push_bit 24 (x AND 0xFF) OR push_bit 8 (x AND 0xFF00) OR
     drop_bit 8 (x AND 0xFF0000) OR drop_bit 24 x"

definition uct_ib_device_is_addr_ipv4_mcast :: "ibv_gid \<Rightarrow> 32 word \<Rightarrow> bool" where
  "uct_ib_device_is_addr_ipv4_mcast raw addr_last_bits =
     (s6_addr32 raw 0 = htonl 0xff0e0000 \<and> (s6_addr32 raw 1 OR addr_last_bits) = 0)"

definition uct_ib_device_get_addr_family :: "ibv_gid \<Rightarrow> sa_family" where
  "uct_ib_device_get_addr_family raw =
     (let addr_last_bits = s6_addr32 raw 2 XOR htonl 0x0000ffff in
      if ((s6_addr32 raw 0 OR s6_addr32 raw 1) OR addr_last_bits) = 0 \<or>
         uct_ib_device_is_addr_ipv4_mcast raw addr_last_bits
      then AF_INET else AF_INET6)"

text \<open>
  The type file is read into a buffer of 16 bytes, at most 15 of them from the file;
  a read that returns no byte counts as a missing file. \<open>Inl\<close> is the error status.
\<close>

definition uct_ib_device_query_gid_info ::
  "ib_verbs \<Rightarrow> 8 word \<Rightarrow> nat \<Rightarrow> ucs_status + uct_ib_device_gid_info" where
  "uct_ib_device_query_gid_info hw port idx =
     (case ibv_query_gid hw port idx of
        None \<Rightarrow> Inl UCS_ERR_INVALID_PARAM
      | Some g \<Rightarrow>
          (let buf = (case gid_type_file hw port idx of None \<Rightarrow> [] | Some str \<Rightarrow> take 15 str);
               family = uct_ib_device_get_addr_family g
           in if length buf > 0 then
                (if take 10 buf = ''IB/RoCE v1''
                 then Inr \<lparr>gid = g, gid_index = of_nat idx,
                           roce_info = \<lparr>ver = UCT_IB_DEVICE_ROCE_V1, addr_family = family\<rparr>\<rparr>
                 else if take 7 buf = ''RoCE v2''
                 then Inr \<lparr>gid = g, gid_index = of_nat idx,
                           roce_info = \<lparr>ver = UCT_IB_DEVICE_ROCE_V2, addr_family = family\<rparr>\<rparr>
                 else Inl UCS_ERR_INVALID_PARAM)
              else Inr \<lparr>gid = g, gid_index = of_nat idx,
                        roce_info = \<lparr>ver = UCT_IB_DEVICE_ROCE_V1, addr_family = family\<rparr>\<rparr>))"

text \<open>
  The constant is declared in \<^verbatim>\<open>ib_device.h\<close>, which is not among the source files;
  no theorem depends on its value.
\<close>

definition UCT_IB_ROCE_UDP_SRC_PORT_BASE :: "16 word" where
  "UCT_IB_ROCE_UDP_SRC_PORT_BASE = 0xC000"

text \<open>
  The liveness probe: create an address handle towards the GID and destroy it at once.
  The index is a \<^verbatim>\<open>uint8_t\<close> parameter.
\<close>

definition uct_ib_device_test_roce_gid_index ::
  "ib_verbs \<Rightarrow> 8 word \<Rightarrow> ibv_gid \<Rightarrow> 8 word \<Rightarrow> bool" where
  "uct_ib_device_test_roce_gid_index hw port g idx =
     ibv_create_ah_ok hw
       \<lparr>grh = \<lparr>dgid = g, flow_label = 1, sgid_index = idx, hop_limit = 255,
               traffic_class = 0\<rparr>,
        dlid = UCT_IB_ROCE_UDP_SRC_PORT_BASE, sl = 0, src_path_bits = 0, static_rate = 0,
        is_global = 1, port_num = port\<rparr>"

subsection \<open>Selecting the GID of a RoCE port\<close>

definition roce_prio :: "uct_ib_roce_version_info list" where
  "roce_prio =
     [\<lparr>ver = UCT_IB_DEVICE_ROCE_V2, addr_family = AF_INET\<rparr>,
      \<lparr>ver = UCT_IB_DEVICE_ROCE_V2, addr_family = AF_INET6\<rparr>,
      \<lparr>ver = UCT_IB_DEVICE_ROCE_V1, addr_family = AF_INET\<rparr>,
      \<lparr>ver = UCT_IB_DEVICE_ROCE_V1, addr_family = AF_INET6\<rparr>]"

text \<open>
  Modelled from the spec: \<^verbatim>\<open>UCT_IB_MD_DEFAULT_GID_INDEX\<close> is declared in
  \<^verbatim>\<open>ib_md.h\<close>, which is not among the source files; the fixed default is index 0.
\<close>

definition UCT_IB_MD_DEFAULT_GID_INDEX :: nat where
  "UCT_IB_MD_DEFAULT_GID_INDEX = 0"

datatype gid_scan =
    Scan_Exhausted
  | Scan_Error ucs_status
  | Scan_Found "8 word" uct_ib_roce_version_info

text \<open>The inner loop, over the indices of the table, for one entry of \<open>roce_prio\<close>.\<close>

fun select_gid_indices ::
  "ib_verbs \<Rightarrow> 8 word \<Rightarrow> uct_ib_roce_version_info \<Rightarrow> nat list \<Rightarrow> gid_scan" where
  "select_gid_indices hw port prio [] = Scan_Exhausted"
| "select_gid_indices hw port prio (i # idxs) =
     (case uct_ib_device_query_gid_info hw port i of
        Inl status \<Rightarrow> Scan_Error status
      | Inr gid_info_tmp \<Rightarrow>
          if ver prio = ver (roce_info gid_info_tmp) \<and>
             addr_family prio = addr_family (roce_info gid_info_tmp) \<and>
             uct_ib_device_test_roce_gid_index hw port (gid gid_info_tmp) (of_nat i)
          then Scan_Found (of_nat i) (roce_info gid_info_tmp)
          else select_gid_indices hw port prio idxs)"

text \<open>The outer loop, over the priorities.\<close>

fun select_gid_prios ::
  "ib_verbs \<Rightarrow> 8 word \<Rightarrow> uct_ib_roce_version_info list \<Rightarrow> nat list \<Rightarrow> gid_scan" where
  "select_gid_prios hw port [] idxs = Scan_Exhausted"
| "select_gid_prios hw port (prio # prios) idxs =
     (case select_gid_indices hw port prio idxs of
        Scan_Exhausted \<Rightarrow> select_gid_prios hw port prios idxs
      | Scan_Error status \<Rightarrow> Scan_Error status
      | Scan_Found i info \<Rightarrow> Scan_Found i info)"

text \<open>
  \<open>gid_info\<close> is the caller's record; the function writes its index and its RoCE
  information and leaves it as it is on an error.
\<close>

definition uct_ib_device_select_gid ::
  "ib_verbs \<Rightarrow> ibv_port_attr \<Rightarrow> 8 word \<Rightarrow> uct_ib_device_gid_info \<Rightarrow>
   failure + (ucs_status \<times> uct_ib_device_gid_info)" where
  "uct_ib_device_select_gid hw attr port gid_info =
     (if link_layer attr \<noteq> IBV_LINK_LAYER_ETHERNET then Inl AssertFailed
      else case select_gid_prios hw port roce_prio [0 ..< nat (gid_tbl_len attr)] of
             Scan_Error status \<Rightarrow> Inr (status, gid_info)
           | Scan_Found i info \<Rightarrow>
               Inr (UCS_OK, gid_info\<lparr>gid_index := i, roce_info := info\<rparr>)
           | Scan_Exhausted \<Rightarrow>
               Inr (UCS_OK,
                    gid_info\<lparr>gid_index := of_nat UCT_IB_MD_DEFAULT_GID_INDEX,
                             roce_info := \<lparr>ver = UCT_IB_DEVICE_ROCE_V1,
                                           addr_family = AF_INET\<rparr>\<rparr>))"

text \<open>
  The selection as the specification words it: the pairs of a priority and an index
  in scan order, and the first pair whose entry has the version and the family of the
  priority and passes the probe.
\<close>

definition gid_matches ::
  "ib_verbs \<Rightarrow> 8 word \<Rightarrow> uct_ib_roce_version_info \<times> nat \<Rightarrow> bool" where
  "gid_matches hw port cand =
     (case uct_ib_device_query_gid_info hw port (snd cand) of
        Inl status \<Rightarrow> False
      | Inr info \<Rightarrow>
          roce_info info = fst cand \<and>
          uct_ib_device_test_roce_gid_index hw port (gid info) (of_nat (snd cand)))"

definition entry_readable :: "ib_verbs \<Rightarrow> 8 word \<Rightarrow> nat \<Rightarrow> bool" where
  "entry_readable hw port i =
     (case uct_ib_device_query_gid_info hw port i of Inl status \<Rightarrow> False | Inr info \<Rightarrow> True)"

definition scan_order :: "nat \<Rightarrow> (uct_ib_roce_version_info \<times> nat) list" where
  "scan_order n = List.product roce_prio [0 ..< n]"

subsection \<open>The device catalogue and the port check\<close>

record uct_ib_pci_id =
  vendor :: "16 word"
  device :: "16 word"

text \<open>The terminating entry of the built-in table has the name NULL, here \<open>None\<close>.\<close>

record uct_ib_device_spec =
  spec_name :: "string option"
  pci_id :: uct_ib_pci_id
  spec_flags :: "uct_ib_device_flag set"
  priority :: nat

definition uct_ib_builtin_device_specs :: "uct_ib_device_spec list" where
  "uct_ib_builtin_device_specs =
     [\<lparr>spec_name = Some ''ConnectX-3'', pci_id = \<lparr>vendor = 0x15b3, device = 4099\<rparr>,
       spec_flags = {UCT_IB_DEVICE_FLAG_MELLANOX, UCT_IB_DEVICE_FLAG_MLX4_PRM},
       priority = 10\<rparr>,
      \<lparr>spec_name = Some ''ConnectX-3 Pro'', pci_id = \<lparr>vendor = 0x15b3, device = 4103\<rparr>,
       spec_flags = {UCT_IB_DEVICE_FLAG_MELLANOX, UCT_IB_DEVICE_FLAG_MLX4_PRM},
       priority = 11\<rparr>,
      \<lparr>spec_name = Some ''Connect-IB'', pci_id = \<lparr>vendor = 0x15b3, device = 4113\<rparr>,
       spec_flags = {UCT_IB_DEVICE_FLAG_MELLANOX, UCT_IB_DEVICE_FLAG_MLX5_PRM, UCT_IB_DEVICE_FLAG_DC_V1},
       priority = 20\<rparr>,
      \<lparr>spec_name = Some ''ConnectX-4'', pci_id = \<lparr>vendor = 0x15b3, device = 4115\<rparr>,
       spec_flags = {UCT_IB_DEVICE_FLAG_MELLANOX, UCT_IB_DEVICE_FLAG_MLX5_PRM, UCT_IB_DEVICE_FLAG_DC_V1},
       priority = 30\<rparr>,
      \<lparr>spec_name = Some ''ConnectX-4'', pci_id = \<lparr>vendor = 0x15b3, device = 4116\<rparr>,
       spec_flags = {UCT_IB_DEVICE_FLAG_MELLANOX, UCT_IB_DEVICE_FLAG_MLX5_PRM, UCT_IB_DEVICE_FLAG_DC_V1},
       priority = 29\<rparr>,
      \<lparr>spec_name = Some ''ConnectX-4 LX'', pci_id = \<lparr>vendor = 0x15b3, device = 4117\<rparr>,
       spec_flags = {UCT_IB_DEVICE_FLAG_MELLANOX, UCT_IB_DEVICE_FLAG_MLX5_PRM, UCT_IB_DEVICE_FLAG_DC_V1},
       priority = 28\<rparr>,
      \<lparr>spec_name = Some ''ConnectX-4 LX VF'', pci_id = \<lparr>vendor = 0x15b3, device = 4118\<rparr>,
       spec_flags = {UCT_IB_DEVICE_FLAG_MELLANOX, UCT_IB_DEVICE_FLAG_MLX5_PRM, UCT_IB_DEVICE_FLAG_DC_V1},
       priority = 28\<rparr>,
      \<lparr>spec_name = Some ''ConnectX-5'', pci_id = \<lparr>vendor = 0x15b3, device = 4119\<rparr>,
       spec_flags = {UCT_IB_DEVICE_FLAG_MELLANOX, UCT_IB_DEVICE_FLAG_MLX5_PRM, UCT_IB_DEVICE_FLAG_DC_V2},
       priority = 38\<rparr>,
      \<lparr>spec_name = Some ''ConnectX-5'', pci_id = \<lparr>vendor = 0x15b3, device = 4121\<rparr>,
       spec_flags = {UCT_IB_DEVICE_FLAG_MELLANOX, UCT_IB_DEVICE_FLAG_MLX5_PRM, UCT_IB_DEVICE_FLAG_DC_V2},
       priority = 40\<rparr>,
      \<lparr>spec_name = Some ''ConnectX-5'', pci_id = \<lparr>vendor = 0x15b3, device = 4120\<rparr>,
       spec_flags = {UCT_IB_DEVICE_FLAG_MELLANOX, UCT_IB_DEVICE_FLAG_MLX5_PRM, UCT_IB_DEVICE_FLAG_DC_V2},
       priority = 39\<rparr>,
      \<lparr>spec_name = Some ''ConnectX-5'', pci_id = \<lparr>vendor = 0x15b3, device = 41682\<rparr>,
       spec_flags = {UCT_IB_DEVICE_FLAG_MELLANOX, UCT_IB_DEVICE_FLAG_MLX5_PRM, UCT_IB_DEVICE_FLAG_DC_V2},
       priority = 37\<rparr>,
      \<lparr>spec_name = Some ''ConnectX-5'', pci_id = \<lparr>vendor = 0x15b3, device = 4122\<rparr>,
       spec_flags = {UCT_IB_DEVICE_FLAG_MELLANOX, UCT_IB_DEVICE_FLAG_MLX5_PRM, UCT_IB_DEVICE_FLAG_DC_V2},
       priority = 36\<rparr>,
      \<lparr>spec_name = Some ''ConnectX-6'', pci_id = \<lparr>vendor = 0x15b3, device = 4123\<rparr>,
       spec_flags = {UCT_IB_DEVICE_FLAG_MELLANOX, UCT_IB_DEVICE_FLAG_MLX5_PRM, UCT_IB_DEVICE_FLAG_DC_V2},
       priority = 50\<rparr>,
      \<lparr>spec_name = Some ''ConnectX-6 VF'', pci_id = \<lparr>vendor = 0x15b3, device = 4124\<rparr>,
       spec_flags = {UCT_IB_DEVICE_FLAG_MELLANOX, UCT_IB_DEVICE_FLAG_MLX5_PRM, UCT_IB_DEVICE_FLAG_DC_V2},
       priority = 50\<rparr>,
      \<lparr>spec_name = Some ''ConnectX-6 DX'', pci_id = \<lparr>vendor = 0x15b3, device = 4125\<rparr>,
       spec_flags = {UCT_IB_DEVICE_FLAG_MELLANOX, UCT_IB_DEVICE_FLAG_MLX5_PRM, UCT_IB_DEVICE_FLAG_DC_V2},
       priority = 60\<rparr>,
      \<lparr>spec_name = Some ''ConnectX-6 DX VF'', pci_id = \<lparr>vendor = 0x15b3, device = 4126\<rparr>,
       spec_flags = {UCT_IB_DEVICE_FLAG_MELLANOX, UCT_IB_DEVICE_FLAG_MLX5_PRM, UCT_IB_DEVICE_FLAG_DC_V2},
       priority = 60\<rparr>,
      \<lparr>spec_name = Some ''ConnectX-6 LX'', pci_id = \<lparr>vendor = 0x15b3, device = 4127\<rparr>,
       spec_flags = {UCT_IB_DEVICE_FLAG_MELLANOX, UCT_IB_DEVICE_FLAG_MLX5_PRM, UCT_IB_DEVICE_FLAG_DC_V2},
       priority = 45\<rparr>,
      \<lparr>spec_name = Some ''ConnectX-7'', pci_id = \<lparr>vendor = 0x15b3, device = 4129\<rparr>,
       spec_flags = {UCT_IB_DEVICE_FLAG_MELLANOX, UCT_IB_DEVICE_FLAG_MLX5_PRM, UCT_IB_DEVICE_FLAG_DC_V2},
       priority = 70\<rparr>,
      \<lparr>spec_name = Some ''BlueField'', pci_id = \<lparr>vendor = 0x15b3, device = 0xa2d2\<rparr>,
       spec_flags = {UCT_IB_DEVICE_FLAG_MELLANOX, UCT_IB_DEVICE_FLAG_MLX5_PRM, UCT_IB_DEVICE_FLAG_DC_V2},
       priority = 41\<rparr>,
      \<lparr>spec_name = Some ''BlueField VF'', pci_id = \<lparr>vendor = 0x15b3, device = 0xa2d3\<rparr>,
       spec_flags = {UCT_IB_DEVICE_FLAG_MELLANOX, UCT_IB_DEVICE_FLAG_MLX5_PRM, UCT_IB_DEVICE_FLAG_DC_V2},
       priority = 41\<rparr>,
      \<lparr>spec_name = Some ''BlueField 2'', pci_id = \<lparr>vendor = 0x15b3, device = 0xa2d6\<rparr>,
       spec_flags = {UCT_IB_DEVICE_FLAG_MELLANOX, UCT_IB_DEVICE_FLAG_MLX5_PRM, UCT_IB_DEVICE_FLAG_DC_V2},
       priority = 61\<rparr>,
      \<lparr>spec_name = Some ''Generic HCA'', pci_id = \<lparr>vendor = 0, device = 0\<rparr>,
       spec_flags = {}, priority = 0\<rparr>,
      \<lparr>spec_name = None, pci_id = \<lparr>vendor = 0, device = 0\<rparr>,
       spec_flags = {}, priority = 0\<rparr>]"

datatype ibv_transport_type =
    IBV_TRANSPORT_UNKNOWN
  | IBV_TRANSPORT_IB
  | IBV_TRANSPORT_IWARP
  | IBV_TRANSPORT_USNIC
  | IBV_TRANSPORT_USNIC_UDP

text \<open>
  The fields of the device and of its memory domain that the port check reads.
  \<open>has_dc\<close> is the value of the macro \<^verbatim>\<open>IBV_DEVICE_HAS_DC\<close>; \<open>gid_index\<close> of
  the configuration is \<open>None\<close> for \<^verbatim>\<open>UCS_ULUNITS_AUTO\<close>. The port attributes are an
  array indexed from the first port.
\<close>

record uct_ib_device =
  first_port :: "8 word"
  num_ports :: "8 word"
  port_attr :: "nat \<Rightarrow> ibv_port_attr"
  dev_pci_id :: uct_ib_pci_id
  transport_type :: ibv_transport_type
  has_dc :: bool

record uct_ib_md =
  custom_devices :: "uct_ib_device_spec list"
  config_gid_index :: "nat option"
  check_subnet_filter :: bool
  subnet_filter :: "64 word"

definition uct_ib_device_spec_match :: "uct_ib_device \<Rightarrow> uct_ib_device_spec \<Rightarrow> bool" where
  "uct_ib_device_spec_match dev spec =
     (vendor (pci_id spec) = vendor (dev_pci_id dev) \<and>
      device (pci_id spec) = device (dev_pci_id dev))"

text \<open>
  The walk through the built-in table stops at the first entry that has no name or
  that matches; the table ends with the entry without a name.
\<close>

fun builtin_spec_scan :: "uct_ib_device \<Rightarrow> uct_ib_device_spec list \<Rightarrow> uct_ib_device_spec" where
  "builtin_spec_scan dev [] =
     \<lparr>spec_name = None, pci_id = \<lparr>vendor = 0, device = 0\<rparr>, spec_flags = {}, priority = 0\<rparr>"
| "builtin_spec_scan dev (spec # specs) =
     (if spec_name spec \<noteq> None \<and> \<not> uct_ib_device_spec_match dev spec
      then builtin_spec_scan dev specs else spec)"

definition uct_ib_device_spec :: "uct_ib_device \<Rightarrow> uct_ib_md \<Rightarrow> uct_ib_device_spec" where
  "uct_ib_device_spec dev md =
     (case find (uct_ib_device_spec_match dev) (custom_devices md) of
        Some spec \<Rightarrow> spec
      | None \<Rightarrow> builtin_spec_scan dev uct_ib_builtin_device_specs)"

definition uct_ib_device_get_ib_gid_index :: "uct_ib_md \<Rightarrow> nat" where
  "uct_ib_device_get_ib_gid_index md =
     (case config_gid_index md of
        None \<Rightarrow> UCT_IB_MD_DEFAULT_GID_INDEX
      | Some i \<Rightarrow> i)"

definition uct_ib_device_is_iwarp :: "uct_ib_device \<Rightarrow> bool" where
  "uct_ib_device_is_iwarp dev = (transport_type dev = IBV_TRANSPORT_IWARP)"

definition uct_ib_device_port_attr :: "uct_ib_device \<Rightarrow> 8 word \<Rightarrow> ibv_port_attr" where
  "uct_ib_device_port_attr dev port = port_attr dev (unat port - unat (first_port dev))"

definition uct_ib_device_is_port_ib :: "uct_ib_device \<Rightarrow> 8 word \<Rightarrow> bool" where
  "uct_ib_device_is_port_ib dev port =
     (link_layer (uct_ib_device_port_attr dev port) = IBV_LINK_LAYER_INFINIBAND)"

definition uct_ib_device_is_gid_raw_empty :: "ibv_gid \<Rightarrow> bool" where
  "uct_ib_device_is_gid_raw_empty gid_raw = (gid_u64 gid_raw 0 = 0 \<and> gid_u64 gid_raw 1 = 0)"

definition uct_ib_device_query_gid ::
  "ib_verbs \<Rightarrow> 8 word \<Rightarrow> nat \<Rightarrow> ucs_status + ibv_gid" where
  "uct_ib_device_query_gid hw port idx =
     (case uct_ib_device_query_gid_info hw port idx of
        Inl status \<Rightarrow> Inl status
      | Inr gid_info \<Rightarrow>
          if uct_ib_device_is_gid_raw_empty (gid gid_info) then Inl UCS_ERR_INVALID_ADDR
          else Inr (gid gid_info))"

definition uct_ib_device_port_check ::
  "uct_ib_device \<Rightarrow> uct_ib_md \<Rightarrow> ib_verbs \<Rightarrow> 8 word \<Rightarrow> uct_ib_device_flag set \<Rightarrow> ucs_status" where
  "uct_ib_device_port_check dev md hw port req_flags =
     (if unat port < unat (first_port dev) \<or>
         unat port \<ge> unat (first_port dev) + unat (num_ports dev)
      then UCS_ERR_NO_DEVICE
      else if gid_tbl_len (uct_ib_device_port_attr dev port) = 0 then UCS_ERR_UNSUPPORTED
      else if state (uct_ib_device_port_attr dev port) \<noteq> IBV_PORT_ACTIVE
      then UCS_ERR_UNREACHABLE
      else if uct_ib_device_is_iwarp dev then UCS_ERR_UNSUPPORTED
      else if \<not> uct_ib_device_is_port_ib dev port \<and> UCT_IB_DEVICE_FLAG_LINK_IB \<in> req_flags
      then UCS_ERR_UNSUPPORTED
      else if req_flags \<inter> UCT_IB_DEVICE_FLAG_DC \<noteq> {} \<and> \<not> has_dc dev
      then UCS_ERR_UNSUPPORTED
      else let dev_info = uct_ib_device_spec dev md;
               required_dev_flags =
                 req_flags \<inter> {UCT_IB_DEVICE_FLAG_MLX4_PRM, UCT_IB_DEVICE_FLAG_MLX5_PRM}
           in if \<not> ucs_test_all_flags (spec_flags dev_info) required_dev_flags
              then UCS_ERR_UNSUPPORTED
              else (case uct_ib_device_query_gid hw port (uct_ib_device_get_ib_gid_index md) of
                      Inl status \<Rightarrow> status
                    | Inr g \<Rightarrow>
                        if check_subnet_filter md \<and> uct_ib_device_is_port_ib dev port \<and>
                           subnet_filter md \<noteq> subnet_prefix g
                        then UCS_ERR_UNSUPPORTED
                        else UCS_OK))"

text \<open>
  The port check as the specification words it: conditions in a fixed order, each with
  the status it fails with, and the first one that holds decides. The last condition
  of \<open>spec_port_conditions\<close> is a mismatch between the configured filter and the
  subnet prefix of the GID; in \<open>port_conditions\<close> it counts on a port with the
  InfiniBand link layer only.
\<close>

definition first_failure :: "(bool \<times> ucs_status) list \<Rightarrow> ucs_status" where
  "first_failure conds = (case find fst conds of None \<Rightarrow> UCS_OK | Some c \<Rightarrow> snd c)"

definition structural_conditions ::
  "uct_ib_device \<Rightarrow> uct_ib_md \<Rightarrow> 8 word \<Rightarrow> uct_ib_device_flag set \<Rightarrow>
   (bool \<times> ucs_status) list" where
  "structural_conditions dev md port req_flags =
     [(unat port < unat (first_port dev) \<or>
       unat (first_port dev) + unat (num_ports dev) \<le> unat port, UCS_ERR_NO_DEVICE),
      (gid_tbl_len (uct_ib_device_port_attr dev port) = 0, UCS_ERR_UNSUPPORTED),
      (state (uct_ib_device_port_attr dev port) \<noteq> IBV_PORT_ACTIVE, UCS_ERR_UNREACHABLE),
      (transport_type dev = IBV_TRANSPORT_IWARP, UCS_ERR_UNSUPPORTED),
      (link_layer (uct_ib_device_port_attr dev port) \<noteq> IBV_LINK_LAYER_INFINIBAND \<and>
       UCT_IB_DEVICE_FLAG_LINK_IB \<in> req_flags, UCS_ERR_UNSUPPORTED),
      (req_flags \<inter> UCT_IB_DEVICE_FLAG_DC \<noteq> {} \<and> \<not> has_dc dev, UCS_ERR_UNSUPPORTED),
      (\<not> req_flags \<inter> {UCT_IB_DEVICE_FLAG_MLX4_PRM, UCT_IB_DEVICE_FLAG_MLX5_PRM}
           \<subseteq> spec_flags (uct_ib_device_spec dev md), UCS_ERR_UNSUPPORTED)]"

definition gid_query_condition :: "ucs_status + ibv_gid \<Rightarrow> bool \<times> ucs_status" where
  "gid_query_condition res = (case res of Inl status \<Rightarrow> (True, status) | Inr g \<Rightarrow> (False, UCS_OK))"

definition filter_mismatch :: "uct_ib_md \<Rightarrow> ucs_status + ibv_gid \<Rightarrow> bool" where
  "filter_mismatch md res =
     (case res of
        Inl status \<Rightarrow> False
      | Inr g \<Rightarrow> check_subnet_filter md \<and> subnet_filter md \<noteq> subnet_prefix g)"

definition spec_port_conditions ::
  "uct_ib_device \<Rightarrow> uct_ib_md \<Rightarrow> ib_verbs \<Rightarrow> 8 word \<Rightarrow> uct_ib_device_flag set \<Rightarrow>
   (bool \<times> ucs_status) list" where
  "spec_port_conditions dev md hw port req_flags =
     (let res = uct_ib_device_query_gid hw port (uct_ib_device_get_ib_gid_index md) in
      structural_conditions dev md port req_flags @
      [gid_query_condition res,
       (filter_mismatch md res, UCS_ERR_UNSUPPORTED)])"

definition port_conditions ::
  "uct_ib_device \<Rightarrow> uct_ib_md \<Rightarrow> ib_verbs \<Rightarrow> 8 word \<Rightarrow> uct_ib_device_flag set \<Rightarrow>
   (bool \<times> ucs_status) list" where
  "port_conditions dev md hw port req_flags =
     (let res = uct_ib_device_query_gid hw port (uct_ib_device_get_ib_gid_index md) in
      structural_conditions dev md port req_flags @
      [gid_query_condition res,
       (link_layer (uct_ib_device_port_attr dev port) = IBV_LINK_LAYER_INFINIBAND \<and>
        filter_mismatch md res, UCS_ERR_UNSUPPORTED)])"

subsection \<open>Cleanup\<close>

fun destroy_ahs :: "ib_state \<Rightarrow> nat list \<Rightarrow> ib_state" where
  "destroy_ahs s [] = s"
| "destroy_ahs s (ah # ahs) = destroy_ahs (ibv_destroy_ah s ah) ahs"

definition uct_ib_device_cleanup_ah_cached :: "ib_state \<Rightarrow> ib_state" where
  "uct_ib_device_cleanup_ah_cached s = destroy_ahs s (map snd (ah_hash s))"

text \<open>
  The steps of the cleanup: \<^verbatim>\<open>ucs_warn\<close> logs a line; \<^verbatim>\<open>kh_destroy_inplace\<close>
  frees a table, which is empty from then on; destroying a lock or freeing the
  statistics node takes the resource away; \<^verbatim>\<open>ucs_async_remove_handler\<close> takes the
  handler of a file descriptor out of the event loop.
\<close>

definition ucs_warn :: "ib_state \<Rightarrow> string \<Rightarrow> ib_state" where
  "ucs_warn s msg = s\<lparr>warnings := warnings s @ [msg]\<rparr>"

definition destroy_resource :: "device_resource \<Rightarrow> ib_state \<Rightarrow> ib_state" where
  "destroy_resource r s = s\<lparr>resources := removeAll r (resources s)\<rparr>"

definition kh_destroy_inplace_async_event :: "ib_state \<Rightarrow> ib_state" where
  "kh_destroy_inplace_async_event s =
     destroy_resource ASYNC_EVENTS_HASH (s\<lparr>async_events_hash := []\<rparr>)"

definition kh_destroy_inplace_ah :: "ib_state \<Rightarrow> ib_state" where
  "kh_destroy_inplace_ah s = destroy_resource AH_HASH (s\<lparr>ah_hash := []\<rparr>)"

definition ucs_async_remove_handler :: "ib_state \<Rightarrow> int \<Rightarrow> ib_state" where
  "ucs_async_remove_handler s fd = s\<lparr>async_handlers := removeAll fd (async_handlers s)\<rparr>"

definition uct_ib_device_cleanup :: "ib_state \<Rightarrow> ib_state" where
  "uct_ib_device_cleanup s =
     (let s1 = (if length (async_events_hash s) \<noteq> 0
                then ucs_warn s ''async_events_hash not empty'' else s);
          s2 = kh_destroy_inplace_async_event s1;
          s3 = destroy_resource ASYNC_EVENT_LOCK s2;
          s4 = kh_destroy_inplace_ah s3;
          s5 = destroy_resource AH_LOCK s4;
          s6 = (if async_events s5 then ucs_async_remove_handler s5 (async_fd s5) else s5)
      in destroy_resource STATS_NODE s6)"

text \<open>
  The cleanup as the specification words it: it asserts that the registry is empty.
\<close>

definition spec_cleanup :: "ib_state \<Rightarrow> failure + ib_state" where
  "spec_cleanup s =
     (if length (async_events_hash s) \<noteq> 0 then Inl AssertFailed
      else Inr (uct_ib_device_cleanup s))"


subsection \<open>Example states\<close>

text \<open>
  A device after \<^verbatim>\<open>uct_ib_device_init\<close> with asynchronous events enabled: both
  tables are empty, no wait context has a callback scheduled, the handler of the
  asynchronous file descriptor is in the event loop.
\<close>

definition fresh_device :: ib_state where
  "fresh_device =
     \<lparr>flags = {}, async_events_hash = [], ah_hash = [], async_events = True, async_fd = 3,
      wait_ctxs = (\<lambda>c. \<lparr>cbq = 0, cb_id = UCS_CALLBACKQ_ID_NULL\<rparr>),
      cbqs = (\<lambda>q. []), ah_live = [], ah_creates = 0, async_handlers = [3],
      resources = [ASYNC_EVENTS_HASH, ASYNC_EVENT_LOCK, AH_HASH, AH_LOCK, STATS_NODE],
      warnings = []\<rparr>"

text \<open>The same device with one key registered, idle.\<close>

definition registered_device :: ib_state where
  "registered_device =
     fresh_device\<lparr>async_events_hash :=
       [((IBV_EVENT_QP_LAST_WQE_REACHED, 5), \<lparr>wait_ctx = None, fired = False\<rparr>)]\<rparr>"


text \<open>An address-attribute record without a global route, to LID 17 on port 1.\<close>

definition example_ah_attr :: ibv_ah_attr where
  "example_ah_attr =
     \<lparr>grh = \<lparr>dgid = replicate 16 0, flow_label = 0, sgid_index = 0, hop_limit = 0,
             traffic_class = 0\<rparr>,
      dlid = 17, sl = 0, src_path_bits = 0, static_rate = 0, is_global = 0, port_num = 1\<rparr>"




text \<open>
  GIDs: the IPv4-mapped address of 10.0.0.1 and a link-local IPv6 address. A table of
  four entries on port 1: index 0 is RoCE v1 with the IPv6 GID, index 1 is RoCE v1 with
  the IPv4 GID, index 2 is RoCE v2 with the IPv4 GID and index 3 is RoCE v2 with the
  IPv6 GID. \<open>example_verbs live bad\<close> is this table where the probe succeeds on
  the indices in \<open>live\<close> and the type file of the indices in \<open>bad\<close> holds a
  string that is no GID type.
\<close>

definition gid_ipv4 :: ibv_gid where
  "gid_ipv4 = [0, 0, 0, 0, 0, 0, 0, 0, 0, 0, 0xff, 0xff, 10, 0, 0, 1]"

definition gid_ipv6 :: ibv_gid where
  "gid_ipv6 = [0xfe, 0x80, 0, 0, 0, 0, 0, 0, 0x02, 0x02, 0xc9, 0xff, 0xfe, 0x11, 0x22, 0x33]"

definition example_verbs :: "nat list \<Rightarrow> nat list \<Rightarrow> ib_verbs" where
  "example_verbs live bad =
     \<lparr>ibv_query_gid = (\<lambda>port i. if i = 1 \<or> i = 2 then Some gid_ipv4
                                 else if i = 0 \<or> i = 3 then Some gid_ipv6 else None),
      gid_type_file = (\<lambda>port i. if i \<in> set bad then Some ''unknown''
                                 else if i = 2 \<or> i = 3 then Some ''RoCE v2''
                                 else Some ''IB/RoCE v1''),
      ibv_create_ah_ok = (\<lambda>attr. unat (sgid_index (grh attr)) \<in> set live)\<rparr>"

definition roce_port_attr :: ibv_port_attr where
  "roce_port_attr =
     \<lparr>state = IBV_PORT_ACTIVE, gid_tbl_len = 4, link_layer = IBV_LINK_LAYER_ETHERNET\<rparr>"

definition example_gid_info :: uct_ib_device_gid_info where
  "example_gid_info =
     \<lparr>gid = replicate 16 0, gid_index = 9,
      roce_info = \<lparr>ver = UCT_IB_DEVICE_ROCE_V1_5, addr_family = AF_INET6\<rparr>\<rparr>"

text \<open>
  A ConnectX-5 with one active RoCE port, number 1, and a memory domain whose subnet
  filter is switched on with a prefix that the GID of index 0 does not have.
\<close>

definition roce_device :: uct_ib_device where
  "roce_device =
     \<lparr>first_port = 1, num_ports = 1, port_attr = (\<lambda>i. roce_port_attr),
      dev_pci_id = \<lparr>vendor = 0x15b3, device = 4119\<rparr>,
      transport_type = IBV_TRANSPORT_IB, has_dc = True\<rparr>"

definition filter_md :: uct_ib_md where
  "filter_md =
     \<lparr>custom_devices = [], config_gid_index = None, check_subnet_filter = True,
      subnet_filter = 1\<rparr>"

text \<open>
  The waiter attached to a key, and the waiters attached to the keys of a list, in the
  order of the list.
\<close>

definition key_waiter :: "ib_state \<Rightarrow> uct_ib_async_event \<Rightarrow> nat option" where
  "key_waiter s k = (case map_of (async_events_hash s) k of None \<Rightarrow> None | Some e \<Rightarrow> wait_ctx e)"

definition waiters_of :: "ib_state \<Rightarrow> uct_ib_async_event list \<Rightarrow> nat list" where
  "waiters_of s ks = List.map_filter (key_waiter s) ks"

text \<open>The number of scheduled callbacks of a queue whose argument is the context \<open>c\<close>.\<close>

definition callbackq_count :: "ucs_callbackq \<Rightarrow> nat \<Rightarrow> nat" where
  "callbackq_count q c = length (filter (\<lambda>e. snd e = c) q)"

section \<open>Verification\<close>

subsection \<open>Tables and the callback queue\<close>

lemma map_of_update_same: "map_of (AList.update k v al) k = Some v"
  by (simp add: update_conv')




lemmas async_defs =
  uct_ib_device_async_event_dispatch_def
  uct_ib_device_async_event_dispatch_nolock_def
  uct_ib_device_async_event_wait_def uct_ib_device_async_event_inprogress_def
  uct_ib_device_async_event_schedule_callback_def ucs_callbackq_add_safe_def
  uct_ib_device_async_event_unregister_def

subsection \<open>The asynchronous-event registry\<close>

text \<open>
  C1. For a key that is registered, has no waiter and has not fired: dispatching the
  key and then waiting with the context \<open>c\<close>, and waiting with \<open>c\<close> and then
  dispatching the key, both succeed, \<^verbatim>\<open>wait\<close> returns \<^verbatim>\<open>UCS_OK\<close> in both, and
  both end in the same state. In that state the queue of \<open>c\<close> holds exactly one
  callback more than before, the one of \<open>c\<close>; every other queue is as before.
\<close>

theorem dispatch_wait_order_independent:
  assumes reg: "map_of (async_events_hash s) (t, r) = Some e"
    and idle: "wait_ctx e = None" "\<not> fired e"
  shows "\<exists>s1 s2 s1' s2'.
           uct_ib_device_async_event_dispatch s (t, r) = Inr s1 \<and>
           uct_ib_device_async_event_wait s1 t r c = Inr (UCS_OK, s2) \<and>
           uct_ib_device_async_event_wait s t r c = Inr (UCS_OK, s1') \<and>
           uct_ib_device_async_event_dispatch s1' (t, r) = Inr s2' \<and>
           s2 = s2' \<and>
           cbqs s2 = (let q = cbq (wait_ctxs s c) in
                      (cbqs s)(q := cbqs s q @ [(callbackq_fresh_id (cbqs s q), c)])) \<and>
           callbackq_count (cbqs s2 (cbq (wait_ctxs s c))) c =
             callbackq_count (cbqs s (cbq (wait_ctxs s c))) c + 1"
  using assms
  by (cases e) (simp add: async_defs callbackq_count_def map_of_update_same Let_def)

theorem dispatch_wait_order_independent_witness:
  "map_of (async_events_hash registered_device) (IBV_EVENT_QP_LAST_WQE_REACHED, 5) =
     Some \<lparr>wait_ctx = None, fired = False\<rparr> \<and>
   (\<exists>s1 s2 s1'.
     uct_ib_device_async_event_dispatch registered_device (IBV_EVENT_QP_LAST_WQE_REACHED, 5) =
       Inr s1 \<and>
     uct_ib_device_async_event_wait s1 IBV_EVENT_QP_LAST_WQE_REACHED 5 7 = Inr (UCS_OK, s2) \<and>
     uct_ib_device_async_event_wait registered_device IBV_EVENT_QP_LAST_WQE_REACHED 5 7 =
       Inr (UCS_OK, s1') \<and>
     uct_ib_device_async_event_dispatch s1' (IBV_EVENT_QP_LAST_WQE_REACHED, 5) = Inr s2 \<and>
     cbqs s2 0 = [(0, 7)])"
proof -
  have reg: "map_of (async_events_hash registered_device) (IBV_EVENT_QP_LAST_WQE_REACHED, 5) =
     Some \<lparr>wait_ctx = None, fired = False\<rparr>"
    by (simp add: registered_device_def fresh_device_def)
  have q: "cbq (wait_ctxs registered_device 7) = 0" "cbqs registered_device 0 = []"
    by (simp_all add: registered_device_def fresh_device_def)
  from dispatch_wait_order_independent [OF reg, of 7]
  obtain s1 s2 s1' where
    "uct_ib_device_async_event_dispatch registered_device (IBV_EVENT_QP_LAST_WQE_REACHED, 5) =
       Inr s1"
    "uct_ib_device_async_event_wait s1 IBV_EVENT_QP_LAST_WQE_REACHED 5 7 = Inr (UCS_OK, s2)"
    "uct_ib_device_async_event_wait registered_device IBV_EVENT_QP_LAST_WQE_REACHED 5 7 =
       Inr (UCS_OK, s1')"
    "uct_ib_device_async_event_dispatch s1' (IBV_EVENT_QP_LAST_WQE_REACHED, 5) = Inr s2"
    "cbqs s2 = (cbqs registered_device)(0 := [(0, 7)])"
    by (auto simp: q Let_def)
  then show ?thesis using reg by auto
qed





text \<open>The fatal broadcast.\<close>

lemma waiters_of_Cons:
  "waiters_of s (k # ks) =
     (case key_waiter s k of None \<Rightarrow> waiters_of s ks | Some c \<Rightarrow> c # waiters_of s ks)"
  by (simp add: waiters_of_def split: option.splits)

lemma waiters_of_cong:
  assumes "\<And>k. key_waiter s1 k = key_waiter s k"
  shows "waiters_of s1 ks = waiters_of s ks"
proof (induction ks)
  case Nil
  show ?case by (simp add: waiters_of_def)
next
  case (Cons k ks)
  then show ?case by (simp add: waiters_of_Cons assms split: option.splits)
qed

lemma map_fst_update_present:
  "map_of al k = Some v \<Longrightarrow> map fst (AList.update k v' al) = map fst al"
  by (induction al) (auto split: if_splits)

lemma callbackq_count_append:
  "callbackq_count (q @ [(i, c)]) c' = callbackq_count q c' + (if c = c' then 1 else 0)"
  by (simp add: callbackq_count_def)

lemma dispatch_nolock_cases:
  "uct_ib_device_async_event_dispatch_nolock s k =
     (case map_of (async_events_hash s) k of
        None \<Rightarrow> Inr s
      | Some e \<Rightarrow>
          (case wait_ctx e of
             None \<Rightarrow> Inr (s\<lparr>async_events_hash :=
                               AList.update k (e\<lparr>fired := True\<rparr>) (async_events_hash s)\<rparr>)
           | Some c \<Rightarrow>
               if cb_id (wait_ctxs s c) \<noteq> UCS_CALLBACKQ_ID_NULL then Inl AssertFailed
               else Inr (s\<lparr>async_events_hash :=
                               AList.update k (e\<lparr>fired := True\<rparr>) (async_events_hash s),
                           cbqs := (cbqs s)(cbq (wait_ctxs s c) :=
                                      cbqs s (cbq (wait_ctxs s c)) @
                                      [(callbackq_fresh_id (cbqs s (cbq (wait_ctxs s c))), c)]),
                           wait_ctxs := (wait_ctxs s)(c := (wait_ctxs s c)
                                          \<lparr>cb_id := callbackq_fresh_id
                                                      (cbqs s (cbq (wait_ctxs s c)))\<rparr>)\<rparr>)))"
  by (simp add: async_defs Let_def split: option.splits)

text \<open>One dispatch of a key whose waiter, if any, has no callback scheduled.\<close>

lemma dispatch_nolock_idle:
  assumes idle: "\<forall>c. key_waiter s k = Some c \<longrightarrow> cb_id (wait_ctxs s c) = UCS_CALLBACKQ_ID_NULL"
  shows "\<exists>s1. uct_ib_device_async_event_dispatch_nolock s k = Inr s1 \<and>
           flags s1 = flags s \<and>
           map fst (async_events_hash s1) = map fst (async_events_hash s) \<and>
           (\<forall>k'. map_of (async_events_hash s1) k' =
                   (if k' = k then map_option (\<lambda>e. e\<lparr>fired := True\<rparr>) (map_of (async_events_hash s) k)
                    else map_of (async_events_hash s) k')) \<and>
           (\<forall>c. cbq (wait_ctxs s1 c) = cbq (wait_ctxs s c)) \<and>
           (\<forall>c. key_waiter s k \<noteq> Some c \<longrightarrow> cb_id (wait_ctxs s1 c) = cb_id (wait_ctxs s c)) \<and>
           (\<forall>q c. callbackq_count (cbqs s1 q) c =
                    callbackq_count (cbqs s q) c +
                    (if key_waiter s k = Some c \<and> q = cbq (wait_ctxs s c) then 1 else 0))"
proof (cases "map_of (async_events_hash s) k")
  case None
  then show ?thesis
    by (simp add: dispatch_nolock_cases key_waiter_def)
next
  case (Some e)
  show ?thesis
  proof (cases "wait_ctx e")
    case None
    with Some show ?thesis
      by (simp add: dispatch_nolock_cases key_waiter_def update_conv' map_fst_update_present)
  next
    case (Some c)
    with \<open>map_of (async_events_hash s) k = Some e\<close> idle
    have "cb_id (wait_ctxs s c) = UCS_CALLBACKQ_ID_NULL"
      by (simp add: key_waiter_def)
    with Some \<open>map_of (async_events_hash s) k = Some e\<close> show ?thesis
      by (simp add: dispatch_nolock_cases key_waiter_def update_conv' map_fst_update_present
          callbackq_count_append)
  qed
qed


lemma key_waiter_fired:
  assumes "\<forall>k'. map_of (async_events_hash s1) k' =
             (if k' = k then map_option (\<lambda>e. e\<lparr>fired := True\<rparr>) (map_of (async_events_hash s) k)
              else map_of (async_events_hash s) k')"
  shows "key_waiter s1 k' = key_waiter s k'"
proof -
  have "map_of (async_events_hash s1) k' =
          (if k' = k then map_option (\<lambda>e. e\<lparr>fired := True\<rparr>) (map_of (async_events_hash s) k)
           else map_of (async_events_hash s) k')"
    using assms by (rule spec)
  then show ?thesis
    by (cases "map_of (async_events_hash s) k'") (auto simp: key_waiter_def)
qed

lemma dispatch_each_idle:
  assumes "distinct (waiters_of s ks)"
    and "\<forall>c \<in> set (waiters_of s ks). cb_id (wait_ctxs s c) = UCS_CALLBACKQ_ID_NULL"
  shows "\<exists>s'. dispatch_each s ks = Inr s' \<and>
           flags s' = flags s \<and>
           map fst (async_events_hash s') = map fst (async_events_hash s) \<and>
           (\<forall>k. map_of (async_events_hash s') k =
                  (if k \<in> set ks
                   then map_option (\<lambda>e. e\<lparr>fired := True\<rparr>) (map_of (async_events_hash s) k)
                   else map_of (async_events_hash s) k)) \<and>
           (\<forall>c. cbq (wait_ctxs s' c) = cbq (wait_ctxs s c)) \<and>
           (\<forall>q c. callbackq_count (cbqs s' q) c =
                    callbackq_count (cbqs s q) c +
                    (if c \<in> set (waiters_of s ks) \<and> q = cbq (wait_ctxs s c) then 1 else 0))"
  using assms
proof (induction ks arbitrary: s)
  case Nil
  then show ?case by (simp add: waiters_of_def)
next
  case (Cons k ks)
  have idle_k: "\<forall>c. key_waiter s k = Some c \<longrightarrow> cb_id (wait_ctxs s c) = UCS_CALLBACKQ_ID_NULL"
    using Cons.prems(2) by (auto simp: waiters_of_Cons)
  from dispatch_nolock_idle [OF idle_k] obtain s1 where
    step: "uct_ib_device_async_event_dispatch_nolock s k = Inr s1"
    and fl1: "flags s1 = flags s"
    and keys1: "map fst (async_events_hash s1) = map fst (async_events_hash s)"
    and map1: "\<forall>k'. map_of (async_events_hash s1) k' =
                 (if k' = k then map_option (\<lambda>e. e\<lparr>fired := True\<rparr>) (map_of (async_events_hash s) k)
                  else map_of (async_events_hash s) k')"
    and cbq1: "\<forall>c. cbq (wait_ctxs s1 c) = cbq (wait_ctxs s c)"
    and id1: "\<forall>c. key_waiter s k \<noteq> Some c \<longrightarrow> cb_id (wait_ctxs s1 c) = cb_id (wait_ctxs s c)"
    and cnt1: "\<forall>q c. callbackq_count (cbqs s1 q) c =
                 callbackq_count (cbqs s q) c +
                 (if key_waiter s k = Some c \<and> q = cbq (wait_ctxs s c) then 1 else 0)"
    by blast
  have w1: "waiters_of s1 ks = waiters_of s ks"
    by (rule waiters_of_cong) (rule key_waiter_fired [OF map1])
  have fresh_k: "\<forall>c. key_waiter s k = Some c \<longrightarrow> c \<notin> set (waiters_of s ks)"
    using Cons.prems(1) by (auto simp: waiters_of_Cons)
  have d1: "distinct (waiters_of s1 ks)"
    using Cons.prems(1) by (simp add: w1 waiters_of_Cons split: option.splits)
  have n1: "\<forall>c \<in> set (waiters_of s1 ks). cb_id (wait_ctxs s1 c) = UCS_CALLBACKQ_ID_NULL"
  proof
    fix c
    assume c: "c \<in> set (waiters_of s1 ks)"
    then have "key_waiter s k \<noteq> Some c" using fresh_k by (auto simp: w1)
    moreover have "cb_id (wait_ctxs s c) = UCS_CALLBACKQ_ID_NULL"
      using c Cons.prems(2) by (auto simp: w1 waiters_of_Cons split: option.splits)
    ultimately show "cb_id (wait_ctxs s1 c) = UCS_CALLBACKQ_ID_NULL"
      using id1 by simp
  qed
  from Cons.IH [OF d1 n1] obtain s' where
    rest: "dispatch_each s1 ks = Inr s'"
    and fl: "flags s' = flags s1"
    and keys: "map fst (async_events_hash s') = map fst (async_events_hash s1)"
    and map2: "\<forall>k'. map_of (async_events_hash s') k' =
                 (if k' \<in> set ks
                  then map_option (\<lambda>e. e\<lparr>fired := True\<rparr>) (map_of (async_events_hash s1) k')
                  else map_of (async_events_hash s1) k')"
    and cbq2: "\<forall>c. cbq (wait_ctxs s' c) = cbq (wait_ctxs s1 c)"
    and cnt2: "\<forall>q c. callbackq_count (cbqs s' q) c =
                 callbackq_count (cbqs s1 q) c +
                 (if c \<in> set (waiters_of s1 ks) \<and> q = cbq (wait_ctxs s1 c) then 1 else 0)"
    by blast
  have run: "dispatch_each s (k # ks) = Inr s'"
    by (simp add: step rest)
  have maps: "\<forall>k'. map_of (async_events_hash s') k' =
                (if k' \<in> set (k # ks)
                 then map_option (\<lambda>e. e\<lparr>fired := True\<rparr>) (map_of (async_events_hash s) k')
                 else map_of (async_events_hash s) k')"
    using map1 map2 by (auto simp: option.map_comp comp_def)
  have cnts: "\<forall>q c. callbackq_count (cbqs s' q) c =
                callbackq_count (cbqs s q) c +
                (if c \<in> set (waiters_of s (k # ks)) \<and> q = cbq (wait_ctxs s c) then 1 else 0)"
    using cnt1 cnt2 cbq1 fresh_k by (auto simp: w1 waiters_of_Cons split: option.splits)
  from run fl fl1 keys keys1 maps cbq1 cbq2 cnts show ?case
    by simp
qed


lemma waiters_of_flags: "waiters_of (s\<lparr>flags := f\<rparr>) ks = waiters_of s ks"
  by (rule waiters_of_cong) (simp add: key_waiter_def)

text \<open>
  What \<^verbatim>\<open>dispatch_fatal\<close> does on a state in which no attached waiter has a
  callback scheduled and no two keys share a wait context: it sets the failed flag,
  marks every registered key as fired, schedules exactly one callback for every
  attached waiter and none for any other context, leaves unregistered keys
  unregistered, and a later \<^verbatim>\<open>register\<close> of an unregistered key succeeds with the
  flag still set.
\<close>

lemma dispatch_fatal_idle_waiters:
  assumes dist: "distinct (waiters_of s (map fst (async_events_hash s)))"
    and idle: "\<forall>c \<in> set (waiters_of s (map fst (async_events_hash s))).
                 cb_id (wait_ctxs s c) = UCS_CALLBACKQ_ID_NULL"
  shows "\<exists>s'. uct_ib_device_async_event_dispatch_fatal s = Inr s' \<and>
           flags s' = flags s \<union> {UCT_IB_DEVICE_FAILED} \<and>
           map fst (async_events_hash s') = map fst (async_events_hash s) \<and>
           (\<forall>k. map_of (async_events_hash s') k =
                  map_option (\<lambda>e. e\<lparr>fired := True\<rparr>) (map_of (async_events_hash s) k)) \<and>
           (\<forall>q c. callbackq_count (cbqs s' q) c =
                    callbackq_count (cbqs s q) c +
                    (if c \<in> set (waiters_of s (map fst (async_events_hash s))) \<and>
                        q = cbq (wait_ctxs s c) then 1 else 0)) \<and>
           (\<forall>t r. map_of (async_events_hash s) (t, r) = None \<longrightarrow>
                  (\<exists>s2. uct_ib_device_async_event_register s' True t r = Inr (UCS_OK, s2) \<and>
                        UCT_IB_DEVICE_FAILED \<in> flags s2))"
proof -
  let ?s0 = "s\<lparr>flags := flags s \<union> {UCT_IB_DEVICE_FAILED}\<rparr>"
  let ?ks = "map fst (async_events_hash s)"
  have d0: "distinct (waiters_of ?s0 ?ks)"
    using dist by (simp add: waiters_of_flags)
  have n0: "\<forall>c \<in> set (waiters_of ?s0 ?ks). cb_id (wait_ctxs ?s0 c) = UCS_CALLBACKQ_ID_NULL"
    using idle by (simp add: waiters_of_flags)
  from dispatch_each_idle [OF d0 n0] obtain s' where
    run: "dispatch_each ?s0 ?ks = Inr s'"
    and fl: "flags s' = flags ?s0"
    and keys: "map fst (async_events_hash s') = map fst (async_events_hash ?s0)"
    and maps: "\<forall>k. map_of (async_events_hash s') k =
                 (if k \<in> set ?ks
                  then map_option (\<lambda>e. e\<lparr>fired := True\<rparr>) (map_of (async_events_hash ?s0) k)
                  else map_of (async_events_hash ?s0) k)"
    and cnts: "\<forall>q c. callbackq_count (cbqs s' q) c =
                 callbackq_count (cbqs ?s0 q) c +
                 (if c \<in> set (waiters_of ?s0 ?ks) \<and> q = cbq (wait_ctxs ?s0 c) then 1 else 0)"
    by blast
  have maps': "\<forall>k. map_of (async_events_hash s') k =
                 map_option (\<lambda>e. e\<lparr>fired := True\<rparr>) (map_of (async_events_hash s) k)"
  proof
    fix k
    show "map_of (async_events_hash s') k =
            map_option (\<lambda>e. e\<lparr>fired := True\<rparr>) (map_of (async_events_hash s) k)"
    proof (cases "k \<in> set ?ks")
      case True
      with maps [rule_format, of k] show ?thesis by simp
    next
      case False
      then have "map_of (async_events_hash s) k = None"
        by (simp add: map_of_eq_None_iff)
      with maps [rule_format, of k] False show ?thesis by simp
    qed
  qed
  have reg: "\<forall>t r. map_of (async_events_hash s) (t, r) = None \<longrightarrow>
               (\<exists>s2. uct_ib_device_async_event_register s' True t r = Inr (UCS_OK, s2) \<and>
                     UCT_IB_DEVICE_FAILED \<in> flags s2)"
  proof (intro allI impI)
    fix t r
    assume "map_of (async_events_hash s) (t, r) = None"
    with maps' [rule_format, of "(t, r)"] have "map_of (async_events_hash s') (t, r) = None"
      by simp
    with fl show "\<exists>s2. uct_ib_device_async_event_register s' True t r = Inr (UCS_OK, s2) \<and>
                     UCT_IB_DEVICE_FAILED \<in> flags s2"
      by (simp add: uct_ib_device_async_event_register_def)
  qed
  from run fl keys maps' cnts reg show ?thesis
    by (simp add: uct_ib_device_async_event_dispatch_fatal_def waiters_of_flags)
qed

text \<open>
  C2. The device received the last-WQE event of a key whose waiter is attached, so
  the waiter's callback is scheduled, and the fatal event arrives before the callback
  has run. \<^verbatim>\<open>dispatch_fatal\<close> then reaches \<^verbatim>\<open>schedule_callback\<close> for a wait
  context whose callback id is set, against the assertion of that function.
\<close>

theorem dispatch_fatal_schedules_twice:
  "\<exists>s1 s2 s3.
     uct_ib_device_async_event_register fresh_device True IBV_EVENT_QP_LAST_WQE_REACHED 5 =
       Inr (UCS_OK, s1) \<and>
     uct_ib_device_async_event_wait s1 IBV_EVENT_QP_LAST_WQE_REACHED 5 7 = Inr (UCS_OK, s2) \<and>
     uct_ib_device_async_event_dispatch s2 (IBV_EVENT_QP_LAST_WQE_REACHED, 5) = Inr s3 \<and>
     cbqs s3 0 = [(0, 7)] \<and>
     uct_ib_device_async_event_dispatch_fatal s3 = Inl AssertFailed"
  by (simp add: async_defs uct_ib_device_async_event_register_def
      uct_ib_device_async_event_dispatch_fatal_def fresh_device_def Let_def
      UCS_CALLBACKQ_ID_NULL_def)


subsection \<open>The address-handle cache\<close>


lemmas ah_defs =
  uct_ib_device_create_ah_cached_def uct_ib_device_create_ah_def ibv_destroy_ah_def




text \<open>
  C5. For an attribute record that is not cached: when \<^verbatim>\<open>ibv_create_ah\<close> fails, the
  call returns \<^verbatim>\<open>UCS_ERR_ENDPOINT_TIMEOUT\<close> if \<^verbatim>\<open>errno\<close> is \<^verbatim>\<open>ETIMEDOUT\<close> and
  \<^verbatim>\<open>UCS_ERR_INVALID_ADDR\<close> for any other \<^verbatim>\<open>errno\<close>, and the cache and the set of
  existing handles are unchanged; when the creation succeeds and the insertion fails, the
  call returns \<^verbatim>\<open>UCS_ERR_NO_MEMORY\<close>, the cache is unchanged and the handle just
  created has been destroyed, so the existing handles are those from before the call.
  In both cases the state differs from the one before only in the count of creation calls.
\<close>

theorem create_ah_cached_failures:
  assumes miss: "kh_get_ah (ah_hash s) ah_attr = None"
  shows "uct_ib_device_create_ah_cached s ah_attr (Inl errno) put_ok =
           (if errno = ETIMEDOUT then UCS_ERR_ENDPOINT_TIMEOUT else UCS_ERR_INVALID_ADDR,
            None, s\<lparr>ah_creates := ah_creates s + 1\<rparr>) \<and>
         uct_ib_device_create_ah_cached s ah_attr (Inr ah) False =
           (UCS_ERR_NO_MEMORY, Some ah, s\<lparr>ah_creates := ah_creates s + 1\<rparr>)"
  using miss by (simp add: ah_defs)

theorem create_ah_cached_failures_witness:
  "kh_get_ah (ah_hash fresh_device) example_ah_attr = None \<and>
   uct_ib_device_create_ah_cached fresh_device example_ah_attr (Inl ETIMEDOUT) True =
     (UCS_ERR_ENDPOINT_TIMEOUT, None, fresh_device\<lparr>ah_creates := 1\<rparr>) \<and>
   uct_ib_device_create_ah_cached fresh_device example_ah_attr (Inl 22) True =
     (UCS_ERR_INVALID_ADDR, None, fresh_device\<lparr>ah_creates := 1\<rparr>) \<and>
   uct_ib_device_create_ah_cached fresh_device example_ah_attr (Inr 42) False =
     (UCS_ERR_NO_MEMORY, Some 42, fresh_device\<lparr>ah_creates := 1\<rparr>)"
proof -
  have miss: "kh_get_ah (ah_hash fresh_device) example_ah_attr = None"
    by (simp add: fresh_device_def)
  have z: "ah_creates fresh_device = 0" by (simp add: fresh_device_def)
  from create_ah_cached_failures [OF miss, of ETIMEDOUT True 42]
       create_ah_cached_failures [OF miss, of 22 True 42] miss z
  show ?thesis by (simp add: ETIMEDOUT_def)
qed


subsection \<open>The PCI bandwidth estimate\<close>







subsection \<open>Selecting the GID of a RoCE port\<close>

lemma select_gid_indices_first:
  "select_gid_indices hw port prio idxs =
     (case find (\<lambda>i. \<not> entry_readable hw port i \<or> gid_matches hw port (prio, i)) idxs of
        None \<Rightarrow> Scan_Exhausted
      | Some i \<Rightarrow>
          (case uct_ib_device_query_gid_info hw port i of
             Inl status \<Rightarrow> Scan_Error status
           | Inr info \<Rightarrow> Scan_Found (of_nat i) prio))"
proof (induction idxs)
  case Nil
  then show ?case by simp
next
  case (Cons i idxs)
  show ?case
  proof (cases "uct_ib_device_query_gid_info hw port i")
    case (Inl status)
    then show ?thesis by (simp add: entry_readable_def)
  next
    case (Inr info)
    then show ?thesis
      using Cons.IH
      by (auto simp: entry_readable_def gid_matches_def)
  qed
qed

lemma find_append_option:
  "find P (xs @ ys) = (case find P xs of None \<Rightarrow> find P ys | Some x \<Rightarrow> Some x)"
  by (induction xs) auto

lemma find_map_Pair:
  "find P (map (Pair a) xs) = map_option (Pair a) (find (\<lambda>x. P (a, x)) xs)"
  by (induction xs) auto

lemma select_gid_prios_first:
  "select_gid_prios hw port prios idxs =
     (case find (\<lambda>c. \<not> entry_readable hw port (snd c) \<or> gid_matches hw port c)
             (List.product prios idxs) of
        None \<Rightarrow> Scan_Exhausted
      | Some c \<Rightarrow>
          (case uct_ib_device_query_gid_info hw port (snd c) of
             Inl status \<Rightarrow> Scan_Error status
           | Inr info \<Rightarrow> Scan_Found (of_nat (snd c)) (fst c)))"
proof (induction prios)
  case Nil
  then show ?case by simp
next
  case (Cons prio prios)
  show ?case
    by (simp add: Cons.IH select_gid_indices_first find_append_option find_map_Pair
        split: option.splits sum.splits)
qed

lemma find_stop_or_match:
  assumes "\<forall>x \<in> set (takeWhile (\<lambda>x. \<not> Q x) xs). \<not> P x" and "\<And>x. Q x \<Longrightarrow> \<not> P x"
  shows "find (\<lambda>x. P x \<or> Q x) xs = find Q xs"
  using assms(1)
proof (induction xs)
  case Nil
  then show ?case by simp
next
  case (Cons x xs)
  then show ?case using assms(2) by (cases "Q x") auto
qed

lemma find_holds: "find P xs = Some x \<Longrightarrow> P x"
  by (induction xs) (auto split: if_splits)

lemma gid_matches_readable: "gid_matches hw port c \<Longrightarrow> entry_readable hw port (snd c)"
  by (auto simp: gid_matches_def entry_readable_def split: sum.splits)

text \<open>The example table: what a query of an entry returns, and the probe.\<close>

lemma fam4: "uct_ib_device_get_addr_family gid_ipv4 = AF_INET"
  by (simp add: uct_ib_device_get_addr_family_def s6_addr32_def gid_byte_def gid_ipv4_def
      htonl_def uct_ib_device_is_addr_ipv4_mcast_def Let_def)

lemma fam6: "uct_ib_device_get_addr_family gid_ipv6 = AF_INET6"
  by (simp add: uct_ib_device_get_addr_family_def s6_addr32_def gid_byte_def gid_ipv6_def
      htonl_def uct_ib_device_is_addr_ipv4_mcast_def Let_def)

lemma example_query:
  "uct_ib_device_query_gid_info (example_verbs live bad) port i =
     (if 3 < i \<or> i \<in> set bad then Inl UCS_ERR_INVALID_PARAM
      else Inr \<lparr>gid = (if i = 1 \<or> i = 2 then gid_ipv4 else gid_ipv6), gid_index = of_nat i,
                roce_info = \<lparr>ver = (if i = 2 \<or> i = 3 then UCT_IB_DEVICE_ROCE_V2
                                     else UCT_IB_DEVICE_ROCE_V1),
                              addr_family = (if i = 1 \<or> i = 2 then AF_INET else AF_INET6)\<rparr>\<rparr>)"
  by (auto simp: uct_ib_device_query_gid_info_def example_verbs_def fam4 fam6)

lemma upt4: "[0 ..< 4] = [0, 1, 2, (3::nat)]"
  by (simp add: upt_rec)

lemma example_probe:
  "uct_ib_device_test_roce_gid_index (example_verbs live bad) port g idx = (unat idx \<in> set live)"
  by (simp add: uct_ib_device_test_roce_gid_index_def example_verbs_def)

text \<open>
  C7. On a port with the Ethernet link layer, if every entry that the scan reads before
  its first match can be read, \<^verbatim>\<open>select_gid\<close> returns \<^verbatim>\<open>UCS_OK\<close> and writes
  the first pair, in the order (v2, IPv4), (v2, IPv6), (v1, IPv4), (v1, IPv6) and by
  ascending index within each, whose entry has the version and the family of the
  priority and passes the probe: its index (as the 8-bit index of the record) and its
  version and family. If no pair matches, it returns \<^verbatim>\<open>UCS_OK\<close> with index 0,
  RoCE v1 and IPv4, whether or not entry 0 would pass a probe.
\<close>

theorem select_gid_first_match:
  assumes eth: "link_layer attr = IBV_LINK_LAYER_ETHERNET"
    and readable: "\<forall>c \<in> set (takeWhile (\<lambda>c. \<not> gid_matches hw port c)
                                 (scan_order (nat (gid_tbl_len attr)))).
                     entry_readable hw port (snd c)"
  shows "uct_ib_device_select_gid hw attr port gid_info =
           Inr (UCS_OK,
                case find (gid_matches hw port) (scan_order (nat (gid_tbl_len attr))) of
                  Some (prio, i) \<Rightarrow> gid_info\<lparr>gid_index := of_nat i, roce_info := prio\<rparr>
                | None \<Rightarrow>
                    gid_info\<lparr>gid_index := 0,
                             roce_info := \<lparr>ver = UCT_IB_DEVICE_ROCE_V1,
                                           addr_family = AF_INET\<rparr>\<rparr>)"
proof -
  let ?cs = "scan_order (nat (gid_tbl_len attr))"
  have "find (\<lambda>c. \<not> entry_readable hw port (snd c) \<or> gid_matches hw port c) ?cs =
        find (gid_matches hw port) ?cs"
    using readable by (intro find_stop_or_match) (auto dest: gid_matches_readable)
  moreover have "\<And>c. find (gid_matches hw port) ?cs = Some c \<Longrightarrow>
                   \<exists>info. uct_ib_device_query_gid_info hw port (snd c) = Inr info"
  proof -
    fix c
    assume "find (gid_matches hw port) ?cs = Some c"
    then have "gid_matches hw port c" by (rule find_holds)
    then show "\<exists>info. uct_ib_device_query_gid_info hw port (snd c) = Inr info"
      by (cases "uct_ib_device_query_gid_info hw port (snd c)") (simp_all add: gid_matches_def)
  qed
  ultimately show ?thesis
    using eth
    by (auto simp: uct_ib_device_select_gid_def select_gid_prios_first scan_order_def
        UCT_IB_MD_DEFAULT_GID_INDEX_def split: option.splits sum.splits)
qed

theorem select_gid_first_match_witness:
  "uct_ib_device_select_gid (example_verbs [0, 1, 2, 3] []) roce_port_attr 1 example_gid_info =
     Inr (UCS_OK, example_gid_info\<lparr>gid_index := 2,
            roce_info := \<lparr>ver = UCT_IB_DEVICE_ROCE_V2, addr_family = AF_INET\<rparr>\<rparr>) \<and>
   uct_ib_device_select_gid (example_verbs [] []) roce_port_attr 1 example_gid_info =
     Inr (UCS_OK, example_gid_info\<lparr>gid_index := 0,
            roce_info := \<lparr>ver = UCT_IB_DEVICE_ROCE_V1, addr_family = AF_INET\<rparr>\<rparr>)"
proof -
  have eth: "link_layer roce_port_attr = IBV_LINK_LAYER_ETHERNET"
    by (simp add: roce_port_attr_def)
  have len: "nat (gid_tbl_len roce_port_attr) = nat 4"
    by (simp add: roce_port_attr_def)
  have readable: "\<And>live c. c \<in> set (scan_order (nat 4)) \<Longrightarrow>
                    entry_readable (example_verbs live []) 1 (snd c)"
    by (auto simp: scan_order_def entry_readable_def example_query)
  have r1: "\<forall>c \<in> set (takeWhile (\<lambda>c. \<not> gid_matches (example_verbs [0, 1, 2, 3] []) 1 c)
                         (scan_order (nat (gid_tbl_len roce_port_attr)))).
              entry_readable (example_verbs [0, 1, 2, 3] []) 1 (snd c)"
    unfolding len using readable by (meson set_takeWhileD)
  have r2: "\<forall>c \<in> set (takeWhile (\<lambda>c. \<not> gid_matches (example_verbs [] []) 1 c)
                         (scan_order (nat (gid_tbl_len roce_port_attr)))).
              entry_readable (example_verbs [] []) 1 (snd c)"
    unfolding len using readable by (meson set_takeWhileD)
  show ?thesis
    using select_gid_first_match [OF eth r1, of example_gid_info]
          select_gid_first_match [OF eth r2, of example_gid_info]
    by (simp add: len scan_order_def upt4 roce_prio_def gid_matches_def example_query
        example_probe)
qed

lemma select_gid_indices_error:
  assumes "\<forall>j \<in> set pre. entry_readable hw port j \<and> \<not> gid_matches hw port (prio, j)"
    and "uct_ib_device_query_gid_info hw port i = Inl status"
  shows "select_gid_indices hw port prio (pre @ i # post) = Scan_Error status"
  using assms
  by (induction pre) (auto simp: entry_readable_def gid_matches_def split: sum.splits)

text \<open>
  C8. On a port with the Ethernet link layer, let \<open>i\<close> be an index of the table whose
  query fails with \<open>status\<close> (\<^verbatim>\<open>ibv_query_gid\<close> fails or the type string does not
  parse), and let the scan reach it: every entry before it can be read and none of them
  is selected for the first priority. Then \<^verbatim>\<open>select_gid\<close> returns \<open>status\<close> and
  leaves the caller's record as it was: nothing is selected, not the default either.
\<close>

theorem select_gid_aborts_on_error:
  assumes eth: "link_layer attr = IBV_LINK_LAYER_ETHERNET"
    and inside: "i < nat (gid_tbl_len attr)"
    and fails: "uct_ib_device_query_gid_info hw port i = Inl status"
    and reached: "\<forall>j < i. entry_readable hw port j \<and> \<not> gid_matches hw port (hd roce_prio, j)"
  shows "uct_ib_device_select_gid hw attr port gid_info = Inr (status, gid_info)"
proof -
  have split: "[0 ..< nat (gid_tbl_len attr)] = [0 ..< i] @ i # [Suc i ..< nat (gid_tbl_len attr)]"
    using inside by (metis less_imp_le_nat upt_add_eq_append upt_conv_Cons le_add_diff_inverse zero_le)
  have "select_gid_indices hw port (hd roce_prio) [0 ..< nat (gid_tbl_len attr)] = Scan_Error status"
    unfolding split using reached fails
    by (intro select_gid_indices_error) auto
  then show ?thesis
    using eth by (simp add: uct_ib_device_select_gid_def roce_prio_def)
qed


theorem select_gid_aborts_on_error_witness:
  "uct_ib_device_query_gid_info (example_verbs [0, 1, 2, 3] [1]) 1 1 = Inl UCS_ERR_INVALID_PARAM \<and>
   uct_ib_device_select_gid (example_verbs [0, 1, 2, 3] [1]) roce_port_attr 1 example_gid_info =
     Inr (UCS_ERR_INVALID_PARAM, example_gid_info)"
proof -
  have eth: "link_layer roce_port_attr = IBV_LINK_LAYER_ETHERNET"
    by (simp add: roce_port_attr_def)
  have inside: "1 < nat (gid_tbl_len roce_port_attr)"
    by (simp add: roce_port_attr_def)
  have fails: "uct_ib_device_query_gid_info (example_verbs [0, 1, 2, 3] [1]) 1 1 =
                 Inl UCS_ERR_INVALID_PARAM"
    by (simp add: example_query)
  have reached: "\<forall>j < 1. entry_readable (example_verbs [0, 1, 2, 3] [1]) 1 j \<and>
                   \<not> gid_matches (example_verbs [0, 1, 2, 3] [1]) 1 (hd roce_prio, j)"
    by (simp add: entry_readable_def gid_matches_def example_query roce_prio_def)
  from select_gid_aborts_on_error [OF eth inside fails reached] fails
  show ?thesis by simp
qed



subsection \<open>The port check\<close>

lemma example_gid0:
  "uct_ib_device_query_gid (example_verbs live []) port 0 = Inr gid_ipv6"
  by (simp add: uct_ib_device_query_gid_def uct_ib_device_query_gid_info_def example_verbs_def
      uct_ib_device_is_gid_raw_empty_def gid_u64_def s6_addr32_def gid_byte_def gid_ipv6_def)

lemma prefix6: "subnet_prefix gid_ipv6 = 0x80fe"
  by (simp add: subnet_prefix_def gid_u64_def s6_addr32_def gid_byte_def gid_ipv6_def)

lemma roce_device_fields:
  "first_port roce_device = 1" "num_ports roce_device = 1"
  "transport_type roce_device = IBV_TRANSPORT_IB" "has_dc roce_device"
  "uct_ib_device_port_attr roce_device port = roce_port_attr"
  by (simp_all add: uct_ib_device_port_attr_def roce_device_def)

lemma filter_md_fields:
  "check_subnet_filter filter_md" "subnet_filter filter_md = 1"
  "uct_ib_device_get_ib_gid_index filter_md = 0"
  by (simp_all add: filter_md_def uct_ib_device_get_ib_gid_index_def
      UCT_IB_MD_DEFAULT_GID_INDEX_def)

text \<open>
  C9, as the claim states it, fails: on an active RoCE port of a device that passes
  every earlier check, with no flag required, the subnet filter switched on and a GID
  whose subnet prefix is not the filter's, the last condition of the claim holds and
  the claim gives \<^verbatim>\<open>UCS_ERR_UNSUPPORTED\<close>; the code returns \<^verbatim>\<open>UCS_OK\<close>, because
  it applies the filter to ports with the InfiniBand link layer only.
\<close>

theorem port_check_counterexample:
  "uct_ib_device_port_check roce_device filter_md (example_verbs [] []) 1 {} = UCS_OK \<and>
   first_failure (spec_port_conditions roce_device filter_md (example_verbs [] []) 1 {}) =
     UCS_ERR_UNSUPPORTED"
  by (simp add: uct_ib_device_port_check_def first_failure_def spec_port_conditions_def
      structural_conditions_def gid_query_condition_def filter_mismatch_def
      ucs_test_all_flags_def uct_ib_device_is_iwarp_def uct_ib_device_is_port_ib_def
      roce_device_fields filter_md_fields roce_port_attr_def example_gid0 prefix6)

text \<open>
  C9, amended. The port check returns the status of the first condition that holds, in
  this order, and \<^verbatim>\<open>UCS_OK\<close> if none does: port number out of range
  (\<^verbatim>\<open>UCS_ERR_NO_DEVICE\<close>); empty GID table (\<^verbatim>\<open>UCS_ERR_UNSUPPORTED\<close>); port not
  active (\<^verbatim>\<open>UCS_ERR_UNREACHABLE\<close>); iWARP transport (\<^verbatim>\<open>UCS_ERR_UNSUPPORTED\<close>); link
  layer not InfiniBand while the caller requires it (\<^verbatim>\<open>UCS_ERR_UNSUPPORTED\<close>); DC
  requested without the hardware flag (\<^verbatim>\<open>UCS_ERR_UNSUPPORTED\<close>); a required PRM flag
  missing from the catalogue entry of the device (\<^verbatim>\<open>UCS_ERR_UNSUPPORTED\<close>); the GID
  query fails (its own status); the subnet filter is switched on, the link layer of the
  port is InfiniBand and the subnet prefix of the GID is not the filter's
  (\<^verbatim>\<open>UCS_ERR_UNSUPPORTED\<close>).
\<close>

theorem port_check_first_failure:
  "uct_ib_device_port_check dev md hw port req_flags =
     first_failure (port_conditions dev md hw port req_flags)"
  by (simp add: uct_ib_device_port_check_def first_failure_def port_conditions_def
      structural_conditions_def gid_query_condition_def filter_mismatch_def
      ucs_test_all_flags_def uct_ib_device_is_iwarp_def uct_ib_device_is_port_ib_def
      Let_def split: sum.splits)

theorem port_check_first_failure_witness:
  "uct_ib_device_port_check roce_device filter_md (example_verbs [] []) 1
     {UCT_IB_DEVICE_FLAG_LINK_IB} = UCS_ERR_UNSUPPORTED \<and>
   uct_ib_device_port_check roce_device filter_md (example_verbs [] []) 2 {} = UCS_ERR_NO_DEVICE"
  using port_check_first_failure
          [of roce_device filter_md "example_verbs [] []" 1 "{UCT_IB_DEVICE_FLAG_LINK_IB}"]
        port_check_first_failure [of roce_device filter_md "example_verbs [] []" 2 "{}"]
  by (simp add: first_failure_def port_conditions_def structural_conditions_def
      roce_device_fields roce_port_attr_def)

subsection \<open>Cleanup\<close>

lemmas cleanup_steps =
  ucs_warn_def destroy_resource_def kh_destroy_inplace_async_event_def
  kh_destroy_inplace_ah_def ucs_async_remove_handler_def

lemma destroy_resource_fields:
  "resources (destroy_resource r s) = removeAll r (resources s)"
  "warnings (destroy_resource r s) = warnings s"
  "async_events_hash (destroy_resource r s) = async_events_hash s"
  "ah_hash (destroy_resource r s) = ah_hash s"
  "async_handlers (destroy_resource r s) = async_handlers s"
  "async_events (destroy_resource r s) = async_events s"
  "async_fd (destroy_resource r s) = async_fd s"
  "ah_live (destroy_resource r s) = ah_live s"
  "cbqs (destroy_resource r s) = cbqs s"
  "flags (destroy_resource r s) = flags s"
  by (simp_all add: destroy_resource_def)

lemma kh_destroy_async_event_fields:
  "resources (kh_destroy_inplace_async_event s) = removeAll ASYNC_EVENTS_HASH (resources s)"
  "warnings (kh_destroy_inplace_async_event s) = warnings s"
  "async_events_hash (kh_destroy_inplace_async_event s) = []"
  "ah_hash (kh_destroy_inplace_async_event s) = ah_hash s"
  "async_handlers (kh_destroy_inplace_async_event s) = async_handlers s"
  "async_events (kh_destroy_inplace_async_event s) = async_events s"
  "async_fd (kh_destroy_inplace_async_event s) = async_fd s"
  "ah_live (kh_destroy_inplace_async_event s) = ah_live s"
  "cbqs (kh_destroy_inplace_async_event s) = cbqs s"
  "flags (kh_destroy_inplace_async_event s) = flags s"
  by (simp_all add: kh_destroy_inplace_async_event_def destroy_resource_def)

lemma kh_destroy_ah_fields:
  "resources (kh_destroy_inplace_ah s) = removeAll AH_HASH (resources s)"
  "warnings (kh_destroy_inplace_ah s) = warnings s"
  "async_events_hash (kh_destroy_inplace_ah s) = async_events_hash s"
  "ah_hash (kh_destroy_inplace_ah s) = []"
  "async_handlers (kh_destroy_inplace_ah s) = async_handlers s"
  "async_events (kh_destroy_inplace_ah s) = async_events s"
  "async_fd (kh_destroy_inplace_ah s) = async_fd s"
  "ah_live (kh_destroy_inplace_ah s) = ah_live s"
  "cbqs (kh_destroy_inplace_ah s) = cbqs s"
  "flags (kh_destroy_inplace_ah s) = flags s"
  by (simp_all add: kh_destroy_inplace_ah_def destroy_resource_def)

lemma remove_handler_fields:
  "resources (ucs_async_remove_handler s fd) = resources s"
  "warnings (ucs_async_remove_handler s fd) = warnings s"
  "async_events_hash (ucs_async_remove_handler s fd) = async_events_hash s"
  "ah_hash (ucs_async_remove_handler s fd) = ah_hash s"
  "async_handlers (ucs_async_remove_handler s fd) = removeAll fd (async_handlers s)"
  "ah_live (ucs_async_remove_handler s fd) = ah_live s"
  "cbqs (ucs_async_remove_handler s fd) = cbqs s"
  "flags (ucs_async_remove_handler s fd) = flags s"
  by (simp_all add: ucs_async_remove_handler_def)

lemma warn_fields:
  "resources (ucs_warn s msg) = resources s"
  "warnings (ucs_warn s msg) = warnings s @ [msg]"
  "async_events_hash (ucs_warn s msg) = async_events_hash s"
  "ah_hash (ucs_warn s msg) = ah_hash s"
  "async_handlers (ucs_warn s msg) = async_handlers s"
  "async_events (ucs_warn s msg) = async_events s"
  "async_fd (ucs_warn s msg) = async_fd s"
  "ah_live (ucs_warn s msg) = ah_live s"
  "cbqs (ucs_warn s msg) = cbqs s"
  "flags (ucs_warn s msg) = flags s"
  by (simp_all add: ucs_warn_def)

lemmas cleanup_fields =
  destroy_resource_fields kh_destroy_async_event_fields kh_destroy_ah_fields
  remove_handler_fields warn_fields

lemma remove_all_resources:
  "removeAll STATS_NODE (removeAll AH_LOCK (removeAll AH_HASH
     (removeAll ASYNC_EVENT_LOCK (removeAll ASYNC_EVENTS_HASH rs)))) = []"
proof (induction rs)
  case Nil
  then show ?case by simp
next
  case (Cons r rs)
  then show ?case by (cases r) simp_all
qed

text \<open>
  C10, as the claim states it, fails: on a device whose registry still holds a key, a
  cleanup that asserts the registry to be empty stops there; the code logs a warning
  and destroys the device all the same.
\<close>

theorem cleanup_counterexample:
  "spec_cleanup registered_device = Inl AssertFailed \<and>
   uct_ib_device_cleanup registered_device =
     fresh_device\<lparr>warnings := [''async_events_hash not empty''], resources := [],
                  async_handlers := []\<rparr>"
  by (simp add: spec_cleanup_def uct_ib_device_cleanup_def registered_device_def
      fresh_device_def cleanup_steps)

text \<open>
  C10, amended. The cleanup logs the warning \<open>async_events_hash not empty\<close> when the
  registry is not empty, and nothing otherwise; in both cases it then destroys the
  registry and the address-handle table with their locks, takes the handler of the
  asynchronous file descriptor out of the event loop when asynchronous events were
  enabled (and leaves the handlers alone when not), and frees the statistics node, so
  that no resource of the device is left. It destroys no address handle: the handles
  that exist in the hardware before the call exist after it.
\<close>

theorem cleanup_warns_and_destroys:
  "warnings (uct_ib_device_cleanup s) =
     (if length (async_events_hash s) = 0 then warnings s
      else warnings s @ [''async_events_hash not empty'']) \<and>
   async_events_hash (uct_ib_device_cleanup s) = [] \<and>
   ah_hash (uct_ib_device_cleanup s) = [] \<and>
   resources (uct_ib_device_cleanup s) = [] \<and>
   async_handlers (uct_ib_device_cleanup s) =
     (if async_events s then removeAll (async_fd s) (async_handlers s)
      else async_handlers s) \<and>
   ah_live (uct_ib_device_cleanup s) = ah_live s \<and>
   cbqs (uct_ib_device_cleanup s) = cbqs s \<and>
   flags (uct_ib_device_cleanup s) = flags s"
  by (simp add: uct_ib_device_cleanup_def Let_def cleanup_fields remove_all_resources)


theorem cleanup_warns_and_destroys_witness:
  "warnings (uct_ib_device_cleanup registered_device) = [''async_events_hash not empty''] \<and>
   async_events_hash (uct_ib_device_cleanup registered_device) = [] \<and>
   resources (uct_ib_device_cleanup registered_device) = [] \<and>
   async_handlers (uct_ib_device_cleanup registered_device) = []"
  using cleanup_warns_and_destroys [of registered_device]
  by (simp add: registered_device_def fresh_device_def)

end
